theory Spec2Isabelle
  imports Main "HOL-Library.Word"
begin

section \<open>pink-elevenlabs: the request/response pipeline of \<^verbatim>\<open>main.go\<close>\<close>

text \<open>
  The command-line client of \<^verbatim>\<open>src/main.go\<close> is embedded as pure functions over an
  explicit process state. Everything the Go code obtains from outside the repository
  (the standard library, the operating system, the remote service, the \<^verbatim>\<open>godotenv\<close>
  and \<^verbatim>\<open>pink-otel\<close> modules) is either a field of the record \<open>platform\<close>, which is
  never changed, or a component of the record \<open>state\<close>, which the functions pass along.
  A call of \<^verbatim>\<open>os.Exit\<close> is the outcome \<open>Exit\<close>; a Go \<^verbatim>\<open>error\<close> is a value of the datatype
  \<open>go_error\<close>, whose text is given by \<open>Error\<close>.
\<close>

subsection \<open>Constants (main.go, lines 19-38)\<close>

definition apiBaseURL :: string where
  "apiBaseURL = ''https://api.elevenlabs.io/v1''"

definition defaultTTSModel :: string where
  "defaultTTSModel = ''eleven_v3''"

definition defaultVoiceModel :: string where
  "defaultVoiceModel = ''eleven_multilingual_sts_v2''"

text \<open>The map literal \<^verbatim>\<open>outputFormats\<close>; a lookup of a missing key is \<open>None\<close> (Go's \<^verbatim>\<open>ok == false\<close>).\<close>

definition outputFormats :: "string \<rightharpoonup> string" where
  "outputFormats =
     [''opus'' \<mapsto> ''opus_48000_96'',
      ''mp3'' \<mapsto> ''mp3_44100_128'',
      ''pcm'' \<mapsto> ''pcm_44100'']"

subsection \<open>Data\<close>

text \<open>
  A \<^verbatim>\<open>float64\<close> is only ever forwarded from the flags into the JSON document, so it is
  kept as its 64-bit pattern.
\<close>

type_synonym float64 = "64 word"

record voiceSettings =
  Stability :: float64
  SimilarityBoost :: float64
  Style :: float64
  Speed :: float64
  UseSpeakerBoost :: bool

record ttsRequest =
  Text :: string
  ModelID :: string
  VoiceSettings :: voiceSettings

text \<open>
  The body of an outgoing request: absent (the probe), the bytes of the JSON document, or
  the multipart form with its parts in the order they were written.
\<close>

datatype part =
    FormFile string string string
  | FormField string string

datatype payload = NoBody | JSONBytes string | MultipartForm "part list"

record http_request =
  Method :: string
  URL :: string
  Header :: "(string \<times> string) list"
  Payload :: payload

text \<open>
  A response as the client sees it: the status code, the bytes its body stream yields, and
  the error (if any) with which the stream ends after yielding them.
\<close>

record http_response =
  StatusCode :: int
  Body :: string
  BodyErr :: "string option"

text \<open>The calls that leave the process, in the order they are attempted.\<close>

datatype syscall =
    NetCall nat http_request
  | Open string
  | ReadFile string
  | MkdirAll string
  | Create string
  | Write string string

text \<open>Telemetry events of \<^verbatim>\<open>pink-otel\<close>: level, name and attribute mapping.\<close>

datatype level = INFO | ERROR

datatype attr = AStr string | AInt int

type_synonym event = "level \<times> string \<times> (string \<times> attr) list"

text \<open>
  What the program cannot decide by itself. \<open>dotenv_file\<close> is the parsed content of the
  environment file at a path (\<open>None\<close>: the file cannot be read); \<open>os_refuses\<close> lets the
  operating system reject a call for a reason outside the model (permissions, disk);
  \<open>short_write\<close> lets a write stop after some bytes; the timeout of a client is the
  first argument of \<open>client_Do\<close>, in seconds.
\<close>

record platform =
  os_Executable :: "string + string"
  filepath_EvalSymlinks :: "string \<Rightarrow> string + string"
  filepath_Dir :: "string \<Rightarrow> string"
  filepath_Base :: "string \<Rightarrow> string"
  filepath_Join :: "string \<Rightarrow> string \<Rightarrow> string"
  dotenv_file :: "string \<Rightarrow> (string \<rightharpoonup> string) option"
  json_Marshal :: "ttsRequest \<Rightarrow> string + string"
  http_NewRequest :: "string \<Rightarrow> string \<Rightarrow> string option"
  client_Do :: "nat \<Rightarrow> http_request \<Rightarrow> string + http_response"
  multipart_boundary :: string
  multipart_CreateFormFile :: "string \<Rightarrow> string \<Rightarrow> string option"
  os_refuses :: "syscall \<Rightarrow> string option"
  short_write :: "string \<Rightarrow> string \<Rightarrow> (nat \<times> string) option"

record state =
  environ :: "string \<rightharpoonup> string"
  dirs :: "string set"
  files :: "string \<rightharpoonup> string"
  trace :: "syscall list"
  events :: "event list"
  stdout :: "string list"
  stderr :: "string list"

datatype 'a outcome = Exit int | Return 'a

text \<open>
  One constructor for each \<^verbatim>\<open>fmt.Errorf\<close> of the source; the argument of a wrapping
  error (\<^verbatim>\<open>%w\<close>) is the text of its cause.
\<close>

datatype go_error =
    UnsupportedFormat string
  | SerializationError string
  | RequestBuildError string
  | NetworkError string
  | APIError int string
  | MkdirError string
  | CreateFileError string
  | WriteError string
  | InputError string
  | FormFileError string
  | CopyAudioError string

subsection \<open>Formatting\<close>

fun digits :: "nat \<Rightarrow> string" where
  "digits n =
     (if n < 10 then [''0123456789'' ! n]
      else digits (n div 10) @ [''0123456789'' ! (n mod 10)])"

declare digits.simps [simp del]

text \<open>The verb \<^verbatim>\<open>%d\<close> on an \<^verbatim>\<open>int\<close>.\<close>

definition itoa :: "int \<Rightarrow> string" where
  "itoa i = (if i < 0 then CHR ''-'' # digits (nat (- i)) else digits (nat i))"

text \<open>The method \<^verbatim>\<open>Error()\<close>: the format strings of lines 140-275.\<close>

fun Error :: "go_error \<Rightarrow> string" where
  "Error (UnsupportedFormat f) = ''unsupported format: '' @ f"
| "Error (SerializationError e) = ''failed to marshal request: '' @ e"
| "Error (RequestBuildError e) = ''failed to create request: '' @ e"
| "Error (NetworkError e) = ''request failed: '' @ e"
| "Error (APIError c b) = ''API error '' @ itoa c @ '': '' @ b"
| "Error (MkdirError e) = ''failed to create output directory: '' @ e"
| "Error (CreateFileError e) = ''failed to create output file: '' @ e"
| "Error (WriteError e) = ''failed to write output: '' @ e"
| "Error (InputError e) = ''failed to open input file: '' @ e"
| "Error (FormFileError e) = ''failed to create form file: '' @ e"
| "Error (CopyAudioError e) = ''failed to copy audio data: '' @ e"

subsection \<open>Sinks: telemetry and the two output streams\<close>

definition otel_Info :: "string \<Rightarrow> (string \<times> attr) list \<Rightarrow> state \<Rightarrow> state" where
  "otel_Info name attrs s = s\<lparr>events := events s @ [(INFO, name, attrs)]\<rparr>"

definition otel_Error :: "string \<Rightarrow> (string \<times> attr) list \<Rightarrow> state \<Rightarrow> state" where
  "otel_Error name attrs s = s\<lparr>events := events s @ [(ERROR, name, attrs)]\<rparr>"

text \<open>\<^verbatim>\<open>fmt.Println\<close> and \<^verbatim>\<open>fmt.Fprintln(os.Stderr, ...)\<close>: one line each.\<close>

definition println :: "string \<Rightarrow> state \<Rightarrow> state" where
  "println l s = s\<lparr>stdout := stdout s @ [l]\<rparr>"

definition eprintln :: "string \<Rightarrow> state \<Rightarrow> state" where
  "eprintln l s = s\<lparr>stderr := stderr s @ [l]\<rparr>"

definition called :: "syscall \<Rightarrow> state \<Rightarrow> state" where
  "called c s = s\<lparr>trace := trace s @ [c]\<rparr>"

subsection \<open>Configuration (main.go, lines 52-96)\<close>

definition os_Getenv :: "state \<Rightarrow> string \<Rightarrow> string" where
  "os_Getenv s name = (case environ s name of None \<Rightarrow> [] | Some v \<Rightarrow> v)"

text \<open>
  Modelled from the spec: \<^verbatim>\<open>godotenv.Load\<close> belongs to the module
  \<^verbatim>\<open>github.com/joho/godotenv\<close>, which is not part of the sources. Section 9 of the
  specification: both files are loaded, a later load can add names, but values that already
  exist in the process environment are not overridden. A file that cannot be read changes
  nothing, and the caller drops the error.
\<close>

definition godotenv_Load :: "platform \<Rightarrow> string \<Rightarrow> state \<Rightarrow> state" where
  "godotenv_Load P path s =
     (case dotenv_file P path of
        None \<Rightarrow> s
      | Some f \<Rightarrow>
          s\<lparr>environ := (\<lambda>k. case environ s k of Some v \<Rightarrow> Some v | None \<Rightarrow> f k)\<rparr>)"

text \<open>Lines 53-59: the path of the environment file beside the executable.\<close>

definition exeEnvPath :: "platform \<Rightarrow> string option" where
  "exeEnvPath P =
     (case os_Executable P of
        Inl err \<Rightarrow> None
      | Inr exe \<Rightarrow>
          let exe' = (case filepath_EvalSymlinks P exe of Inl err \<Rightarrow> exe | Inr realExe \<Rightarrow> realExe)
          in Some (filepath_Join P (filepath_Dir P exe') ''.env''))"

definition loadEnv :: "platform \<Rightarrow> state \<Rightarrow> state" where
  "loadEnv P s =
     (let s1 = (case exeEnvPath P of None \<Rightarrow> s | Some envPath \<Rightarrow> godotenv_Load P envPath s)
      in godotenv_Load P ''.env'' s1)"

text \<open>
  The bodies of \<^verbatim>\<open>getAPIKey\<close>, \<^verbatim>\<open>getTTSVoiceID\<close> and \<^verbatim>\<open>getVoiceChangeID\<close> differ in the
  name of the variable only; \<open>resolveRequired\<close> is that body, with the name as its
  argument.
\<close>

definition resolveRequired :: "string \<Rightarrow> platform \<Rightarrow> state \<Rightarrow> string outcome \<times> state" where
  "resolveRequired name P s =
     (let s1 = loadEnv P s;
          v = os_Getenv s1 name
      in if v = []
         then (Exit 1,
               eprintln (''ERROR: '' @ name @ '' not found in environment'')
                 (otel_Error (name @ '' not found'') [] s1))
         else (Return v, s1))"

definition getAPIKey :: "platform \<Rightarrow> state \<Rightarrow> string outcome \<times> state" where
  "getAPIKey = resolveRequired ''ELEVENLABS_API_KEY''"

definition getTTSVoiceID :: "platform \<Rightarrow> state \<Rightarrow> string outcome \<times> state" where
  "getTTSVoiceID = resolveRequired ''ELEVENLABS_TTS_VOICE_ID''"

definition getVoiceChangeID :: "platform \<Rightarrow> state \<Rightarrow> string outcome \<times> state" where
  "getVoiceChangeID = resolveRequired ''ELEVENLABS_VOICE_CHANGE_ID''"

subsection \<open>The file system, as far as the program touches it\<close>

text \<open>
  A path and the directories above it, found by taking \<^verbatim>\<open>filepath.Dir\<close> at most once
  for each character of the path.
\<close>

fun ancestors :: "(string \<Rightarrow> string) \<Rightarrow> nat \<Rightarrow> string \<Rightarrow> string list" where
  "ancestors dir 0 p = [p]"
| "ancestors dir (Suc n) p = p # ancestors dir n (dir p)"

text \<open>
  \<^verbatim>\<open>os.MkdirAll\<close> creates the directory and every missing parent; it fails when the
  operating system refuses or when one of the names is a regular file.
\<close>

definition os_MkdirAll :: "platform \<Rightarrow> string \<Rightarrow> state \<Rightarrow> string option \<times> state" where
  "os_MkdirAll P path s =
     (let s1 = called (MkdirAll path) s;
          chain = ancestors (filepath_Dir P) (length path) path
      in case os_refuses P (MkdirAll path) of
           Some e \<Rightarrow> (Some e, s1)
         | None \<Rightarrow>
             if list_ex (\<lambda>p. files s p \<noteq> None) chain
             then (Some (''mkdir '' @ path @ '': not a directory''), s1)
             else (None, s1\<lparr>dirs := dirs s1 \<union> set chain\<rparr>))"

text \<open>\<^verbatim>\<open>os.Create\<close> truncates or creates a regular file in an existing directory.\<close>

definition os_Create :: "platform \<Rightarrow> string \<Rightarrow> state \<Rightarrow> string option \<times> state" where
  "os_Create P path s =
     (let s1 = called (Create path) s
      in case os_refuses P (Create path) of
           Some e \<Rightarrow> (Some e, s1)
         | None \<Rightarrow>
             if path \<in> dirs s then (Some (''open '' @ path @ '': is a directory''), s1)
             else if filepath_Dir P path \<notin> dirs s
             then (Some (''open '' @ path @ '': no such file or directory''), s1)
             else (None, s1\<lparr>files := (files s1)(path \<mapsto> [])\<rparr>))"

text \<open>
  \<^verbatim>\<open>io.Copy(outFile, resp.Body)\<close>: the bytes of the body go to the file; a write that
  stops early leaves the bytes written so far, and an error of the body stream is reported
  after the bytes it yielded have been written.
\<close>

definition io_Copy :: "platform \<Rightarrow> string \<Rightarrow> http_response \<Rightarrow> state \<Rightarrow> string option \<times> state" where
  "io_Copy P path resp s =
     (case short_write P path (Body resp) of
        Some (n, e) \<Rightarrow>
          (Some e,
           (called (Write path (take n (Body resp))) s)
             \<lparr>files := (files s)(path \<mapsto> take n (Body resp))\<rparr>)
      | None \<Rightarrow>
          (BodyErr resp,
           (called (Write path (Body resp)) s)\<lparr>files := (files s)(path \<mapsto> Body resp)\<rparr>))"

definition os_Open :: "platform \<Rightarrow> string \<Rightarrow> state \<Rightarrow> string option \<times> state" where
  "os_Open P path s =
     (let s1 = called (Open path) s
      in case os_refuses P (Open path) of
           Some e \<Rightarrow> (Some e, s1)
         | None \<Rightarrow>
             if files s path \<noteq> None \<or> path \<in> dirs s then (None, s1)
             else (Some (''open '' @ path @ '': no such file or directory''), s1))"

text \<open>Reading an opened file to its end (\<^verbatim>\<open>io.Copy(part, inputFile)\<close>).\<close>

definition read_input :: "platform \<Rightarrow> string \<Rightarrow> state \<Rightarrow> (string + string) \<times> state" where
  "read_input P path s =
     (let s1 = called (ReadFile path) s
      in case os_refuses P (ReadFile path) of
           Some e \<Rightarrow> (Inl e, s1)
         | None \<Rightarrow>
             (case files s path of
                None \<Rightarrow> (Inl (''read '' @ path @ '': is a directory''), s1)
              | Some d \<Rightarrow> (Inr d, s1)))"

text \<open>\<^verbatim>\<open>os.IsNotExist\<close> of the error of \<^verbatim>\<open>os.Stat\<close>.\<close>

definition stat_IsNotExist :: "state \<Rightarrow> string \<Rightarrow> bool" where
  "stat_IsNotExist s path \<longleftrightarrow> files s path = None \<and> path \<notin> dirs s"

subsection \<open>The liveness probe (main.go, lines 98-119)\<close>

definition healthRequest :: "string \<Rightarrow> http_request" where
  "healthRequest key =
     \<lparr>Method = ''GET'', URL = apiBaseURL @ ''/user'',
      Header = [(''xi-api-key'', key)], Payload = NoBody\<rparr>"

definition checkHealth :: "platform \<Rightarrow> state \<Rightarrow> bool \<times> state" where
  "checkHealth P s =
     (let s1 = loadEnv P s;
          key = os_Getenv s1 ''ELEVENLABS_API_KEY''
      in if key = [] then (False, s1)
         else case http_NewRequest P ''GET'' (apiBaseURL @ ''/user'') of
                Some err \<Rightarrow> (False, s1)
              | None \<Rightarrow>
                  (let req = healthRequest key;
                       s2 = called (NetCall 10 req) s1
                   in case client_Do P 10 req of
                        Inl err \<Rightarrow> (False, s2)
                      | Inr resp \<Rightarrow> (StatusCode resp = 200, s2)))"

subsection \<open>Handling the response (main.go, lines 182-203 and 258-279)\<close>

text \<open>
  Both operations end with the same statements; they differ in the name of the event that
  reports completion.
\<close>

definition saveResponse ::
  "platform \<Rightarrow> http_response \<Rightarrow> string \<Rightarrow> string \<Rightarrow> state \<Rightarrow> go_error option \<times> state" where
  "saveResponse P resp outputPath complete s =
     (if StatusCode resp \<noteq> 200 then (Some (APIError (StatusCode resp) (Body resp)), s)
      else
        case os_MkdirAll P (filepath_Dir P outputPath) s of
          (Some e, s1) \<Rightarrow> (Some (MkdirError e), s1)
        | (None, s1) \<Rightarrow>
            (case os_Create P outputPath s1 of
               (Some e, s2) \<Rightarrow> (Some (CreateFileError e), s2)
             | (None, s2) \<Rightarrow>
                 (case io_Copy P outputPath resp s2 of
                    (Some e, s3) \<Rightarrow> (Some (WriteError e), s3)
                  | (None, s3) \<Rightarrow>
                      (None, otel_Info complete [(''output'', AStr outputPath)] s3))))"

subsection \<open>Synthesis (main.go, lines 135-204)\<close>

definition ttsHTTPRequest :: "string \<Rightarrow> string \<Rightarrow> string \<Rightarrow> http_request" where
  "ttsHTTPRequest url jsonBody apiKey =
     \<lparr>Method = ''POST'', URL = url,
      Header = [(''Content-Type'', ''application/json''), (''xi-api-key'', apiKey)],
      Payload = JSONBytes jsonBody\<rparr>"

definition textToSpeech ::
  "platform \<Rightarrow> string \<Rightarrow> string \<Rightarrow> string \<Rightarrow> string \<Rightarrow>
   float64 \<Rightarrow> float64 \<Rightarrow> float64 \<Rightarrow> float64 \<Rightarrow> bool \<Rightarrow> state \<Rightarrow> go_error option outcome \<times> state" where
  "textToSpeech P text outputPath voiceID fmt stability similarityBoost style speed speakerBoost s =
     (case getAPIKey P s of
        (Exit c, s1) \<Rightarrow> (Exit c, s1)
      | (Return apiKey, s1) \<Rightarrow>
          (case outputFormats fmt of
             None \<Rightarrow> (Return (Some (UnsupportedFormat fmt)), s1)
           | Some apiFormat \<Rightarrow>
               (let reqBody =
                      \<lparr>Text = text, ModelID = defaultTTSModel,
                       VoiceSettings =
                         \<lparr>Stability = stability, SimilarityBoost = similarityBoost,
                          Style = style, Speed = speed, UseSpeakerBoost = speakerBoost\<rparr>\<rparr>
                in (case json_Marshal P reqBody of
                      Inl err \<Rightarrow> (Return (Some (SerializationError err)), s1)
                    | Inr jsonBody \<Rightarrow>
                        (let url = apiBaseURL @ ''/text-to-speech/'' @ voiceID
                                     @ ''?output_format='' @ apiFormat
                         in (case http_NewRequest P ''POST'' url of
                               Some err \<Rightarrow> (Return (Some (RequestBuildError err)), s1)
                             | None \<Rightarrow>
                                 (let req = ttsHTTPRequest url jsonBody apiKey;
                                      s2 = otel_Info ''tts_request''
                                             [(''voice_id'', AStr voiceID), (''format'', AStr fmt),
                                              (''text_len'', AInt (int (length text)))] s1;
                                      s3 = called (NetCall 120 req) s2
                                  in (case client_Do P 120 req of
                                        Inl err \<Rightarrow> (Return (Some (NetworkError err)), s3)
                                      | Inr resp \<Rightarrow>
                                          (case saveResponse P resp outputPath ''tts_complete'' s3 of
                                             (r, s4) \<Rightarrow> (Return r, s4))))))))))"

subsection \<open>Transformation (main.go, lines 206-280)\<close>

definition voiceHTTPRequest :: "platform \<Rightarrow> string \<Rightarrow> string \<Rightarrow> string \<Rightarrow> string \<Rightarrow> http_request" where
  "voiceHTTPRequest P url inputPath audio apiKey =
     \<lparr>Method = ''POST'', URL = url,
      Header = [(''Content-Type'', ''multipart/form-data; boundary='' @ multipart_boundary P),
                (''xi-api-key'', apiKey)],
      Payload = MultipartForm
                  [FormFile ''audio'' (filepath_Base P inputPath) audio,
                   FormField ''model_id'' defaultVoiceModel]\<rparr>"

definition voiceChange ::
  "platform \<Rightarrow> string \<Rightarrow> string \<Rightarrow> string \<Rightarrow> string \<Rightarrow> state \<Rightarrow> go_error option outcome \<times> state" where
  "voiceChange P inputPath outputPath voiceID fmt s =
     (case getAPIKey P s of
        (Exit c, s1) \<Rightarrow> (Exit c, s1)
      | (Return apiKey, s1) \<Rightarrow>
          (case outputFormats fmt of
             None \<Rightarrow> (Return (Some (UnsupportedFormat fmt)), s1)
           | Some apiFormat \<Rightarrow>
               (case os_Open P inputPath s1 of
                  (Some err, s2) \<Rightarrow> (Return (Some (InputError err)), s2)
                | (None, s2) \<Rightarrow>
                    (case multipart_CreateFormFile P ''audio'' (filepath_Base P inputPath) of
                       Some err \<Rightarrow> (Return (Some (FormFileError err)), s2)
                     | None \<Rightarrow>
                         (case read_input P inputPath s2 of
                            (Inl err, s3) \<Rightarrow> (Return (Some (CopyAudioError err)), s3)
                          | (Inr audio, s3) \<Rightarrow>
                              (let url = apiBaseURL @ ''/speech-to-speech/'' @ voiceID
                                           @ ''?output_format='' @ apiFormat
                               in (case http_NewRequest P ''POST'' url of
                                     Some err \<Rightarrow> (Return (Some (RequestBuildError err)), s3)
                                   | None \<Rightarrow>
                                       (let req = voiceHTTPRequest P url inputPath audio apiKey;
                                            s4 = otel_Info ''voice_change_request''
                                                   [(''voice_id'', AStr voiceID), (''format'', AStr fmt),
                                                    (''input'', AStr inputPath)] s3;
                                            s5 = called (NetCall 120 req) s4
                                        in (case client_Do P 120 req of
                                              Inl err \<Rightarrow> (Return (Some (NetworkError err)), s5)
                                            | Inr resp \<Rightarrow>
                                                (case saveResponse P resp outputPath
                                                        ''voice_change_complete'' s5 of
                                                   (r, s6) \<Rightarrow> (Return r, s6)))))))))))"

subsection \<open>The two commands (main.go, lines 346-425)\<close>

text \<open>
  The flag parser is outside the pipeline: a command receives the values of its flags
  after \<^verbatim>\<open>fs.Parse\<close>, defaults filled in, and the positional arguments.
\<close>

record voiceFlags =
  fl_output :: string
  fl_voice :: string
  fl_format :: string
  fl_args :: "string list"

record ttsFlags = voiceFlags +
  fl_stability :: float64
  fl_similarityBoost :: float64
  fl_style :: float64
  fl_speed :: float64
  fl_noSpeakerBoost :: bool

definition cmdTTS :: "platform \<Rightarrow> ttsFlags \<Rightarrow> state \<Rightarrow> unit outcome \<times> state" where
  "cmdTTS P fl s =
     (if length (fl_args fl) < 1
      then (Exit 1, eprintln ''ERROR: Text argument required'' s)
      else
        let text = fl_args fl ! 0
        in case (if fl_voice fl = [] then getTTSVoiceID P s else (Return (fl_voice fl), s)) of
             (Exit c, s1) \<Rightarrow> (Exit c, s1)
           | (Return voiceID, s1) \<Rightarrow>
               (case textToSpeech P text (fl_output fl) voiceID (fl_format fl)
                       (fl_stability fl) (fl_similarityBoost fl) (fl_style fl) (fl_speed fl)
                       (\<not> fl_noSpeakerBoost fl) s1 of
                  (Exit c, s2) \<Rightarrow> (Exit c, s2)
                | (Return (Some err), s2) \<Rightarrow>
                    (Exit 1,
                     eprintln (''ERROR: '' @ Error err)
                       (otel_Error ''tts_failed'' [(''error'', AStr (Error err))] s2))
                | (Return None, s2) \<Rightarrow> (Return (), println (fl_output fl) s2)))"

definition cmdVoice :: "platform \<Rightarrow> voiceFlags \<Rightarrow> state \<Rightarrow> unit outcome \<times> state" where
  "cmdVoice P fl s =
     (if length (fl_args fl) < 1
      then (Exit 1, eprintln ''ERROR: Input file argument required'' s)
      else
        let inputPath = fl_args fl ! 0
        in if stat_IsNotExist s inputPath
           then (Exit 1, eprintln (''ERROR: Input file not found: '' @ inputPath) s)
           else
             case (if fl_voice fl = [] then getVoiceChangeID P s else (Return (fl_voice fl), s)) of
               (Exit c, s1) \<Rightarrow> (Exit c, s1)
             | (Return voiceID, s1) \<Rightarrow>
                 (case voiceChange P inputPath (fl_output fl) voiceID (fl_format fl) s1 of
                    (Exit c, s2) \<Rightarrow> (Exit c, s2)
                  | (Return (Some err), s2) \<Rightarrow>
                      (Exit 1,
                       eprintln (''ERROR: '' @ Error err)
                         (otel_Error ''voice_change_failed'' [(''error'', AStr (Error err))] s2))
                  | (Return None, s2) \<Rightarrow> (Return (), println (fl_output fl) s2)))"

subsection \<open>Notions used to state the properties\<close>

text \<open>The calls attempted between two states of one run.\<close>

definition issued :: "state \<Rightarrow> state \<Rightarrow> syscall list" where
  "issued before after = drop (length (trace before)) (trace after)"

fun is_NetCall :: "syscall \<Rightarrow> bool" where
  "is_NetCall (NetCall t r) = True"
| "is_NetCall c = False"

text \<open>The same process state with one environment variable set (\<open>Some\<close>) or unset.\<close>

definition with_env :: "string \<Rightarrow> string option \<Rightarrow> state \<Rightarrow> state" where
  "with_env k x s = s\<lparr>environ := (environ s)(k := x)\<rparr>"

text \<open>
  Two runs with the same outcome and the same effects, whose final environments agree on
  every variable other than \<open>k\<close>.
\<close>

definition same_run :: "string \<Rightarrow> 'a outcome \<times> state \<Rightarrow> 'a outcome \<times> state \<Rightarrow> bool" where
  "same_run k a b \<longleftrightarrow>
     fst a = fst b
     \<and> trace (snd a) = trace (snd b)
     \<and> files (snd a) = files (snd b)
     \<and> dirs (snd a) = dirs (snd b)
     \<and> events (snd a) = events (snd b)
     \<and> stdout (snd a) = stdout (snd b)
     \<and> stderr (snd a) = stderr (snd b)
     \<and> (\<forall>n. n \<noteq> k \<longrightarrow> environ (snd a) n = environ (snd b) n)"

text \<open>What the environment file at a path defines for a name.\<close>

definition dotenv_value :: "platform \<Rightarrow> string \<Rightarrow> string \<Rightarrow> string option" where
  "dotenv_value P path name = (case dotenv_file P path of None \<Rightarrow> None | Some f \<Rightarrow> f name)"

subsection \<open>A sample platform and sample states\<close>

text \<open>
  Concrete values for the closed examples below: Unix paths that are already clean, an
  executable in \<^verbatim>\<open>/opt/pink\<close>, no environment files, an operating system that refuses
  nothing, and a remote service that answers every request with status 200.
\<close>

definition unix_Dir :: "string \<Rightarrow> string" where
  "unix_Dir p =
     (let d = rev (dropWhile (\<lambda>c. c \<noteq> CHR ''/'') (rev p));
          d' = rev (dropWhile (\<lambda>c. c = CHR ''/'') (rev d))
      in if d = [] then ''.'' else if d' = [] then ''/'' else d')"

definition unix_Base :: "string \<Rightarrow> string" where
  "unix_Base p = rev (takeWhile (\<lambda>c. c \<noteq> CHR ''/'') (rev p))"

definition sample_response :: http_response where
  "sample_response = \<lparr>StatusCode = 200, Body = ''OggS-audio'', BodyErr = None\<rparr>"

definition sample_platform :: platform where
  "sample_platform =
     \<lparr>os_Executable = Inr ''/opt/pink/pink-elevenlabs'',
      filepath_EvalSymlinks = (\<lambda>p. Inr p),
      filepath_Dir = unix_Dir,
      filepath_Base = unix_Base,
      filepath_Join = (\<lambda>a b. a @ ''/'' @ b),
      dotenv_file = (\<lambda>p. None),
      json_Marshal = (\<lambda>r. Inr (''{text:'' @ Text r @ ''}'')),
      http_NewRequest = (\<lambda>m u. None),
      client_Do = (\<lambda>t r. Inr sample_response),
      multipart_boundary = ''b0'',
      multipart_CreateFormFile = (\<lambda>field name. None),
      os_refuses = (\<lambda>c. None),
      short_write = (\<lambda>p d. None)\<rparr>"

text \<open>The same platform with a remote service that rejects every request.\<close>

definition refusing_platform :: platform where
  "refusing_platform =
     sample_platform\<lparr>client_Do :=
       (\<lambda>t r. Inr \<lparr>StatusCode = 422, Body = ''{detail:bad voice}'', BodyErr = None\<rparr>)\<rparr>"

text \<open>The same platform with two environment files that define the credential.\<close>

definition two_files_platform :: platform where
  "two_files_platform =
     sample_platform\<lparr>dotenv_file :=
       (\<lambda>p. if p = ''/opt/pink/.env'' then Some [''ELEVENLABS_API_KEY'' \<mapsto> ''key-beside-exe'']
            else if p = ''.env'' then Some [''ELEVENLABS_API_KEY'' \<mapsto> ''key-in-cwd'']
            else None)\<rparr>"

definition empty_state :: state where
  "empty_state =
     \<lparr>environ = Map.empty, dirs = {''/''}, files = Map.empty, trace = [],
      events = [], stdout = [], stderr = []\<rparr>"

definition keyed_state :: state where
  "keyed_state = empty_state\<lparr>environ := [''ELEVENLABS_API_KEY'' \<mapsto> ''sk-1'']\<rparr>"

definition input_state :: state where
  "input_state =
     keyed_state\<lparr>dirs := {''/'', ''/tmp''}, files := [''/tmp/in.ogg'' \<mapsto> ''RIFF'']\<rparr>"

definition input_only_state :: state where
  "input_only_state =
     empty_state\<lparr>dirs := {''/'', ''/tmp''}, files := [''/tmp/in.ogg'' \<mapsto> ''RIFF'']\<rparr>"

definition sample_tts_flags :: ttsFlags where
  "sample_tts_flags =
     \<lparr>fl_output = ''/tmp/out/speech.ogg'', fl_voice = ''v1'', fl_format = ''opus'',
      fl_args = [''hello''], fl_stability = 0, fl_similarityBoost = 0x3FE8000000000000,
      fl_style = 0x3FE0000000000000, fl_speed = 0x3FF0000000000000,
      fl_noSpeakerBoost = False\<rparr>"

definition sample_voice_flags :: voiceFlags where
  "sample_voice_flags =
     \<lparr>fl_output = ''/tmp/out/voice.ogg'', fl_voice = ''v2'', fl_format = ''opus'',
      fl_args = [''/tmp/in.ogg'']\<rparr>"

definition novoice_tts_flags :: ttsFlags where
  "novoice_tts_flags = sample_tts_flags\<lparr>fl_voice := []\<rparr>"

definition novoice_voice_flags :: voiceFlags where
  "novoice_voice_flags = sample_voice_flags\<lparr>fl_voice := []\<rparr>"

section \<open>Properties\<close>

subsection \<open>Basic facts\<close>

lemmas sinks = otel_Info_def otel_Error_def println_def eprintln_def called_def

lemmas sample_defs = sample_platform_def sample_response_def refusing_platform_def
  empty_state_def keyed_state_def input_state_def sample_tts_flags_def sample_voice_flags_def
  unix_Dir_def unix_Base_def

lemmas model_defs = cmdTTS_def cmdVoice_def textToSpeech_def voiceChange_def saveResponse_def
  getAPIKey_def getTTSVoiceID_def getVoiceChangeID_def resolveRequired_def loadEnv_def
  godotenv_Load_def exeEnvPath_def os_Getenv_def os_MkdirAll_def os_Create_def io_Copy_def
  os_Open_def read_input_def stat_IsNotExist_def ttsHTTPRequest_def voiceHTTPRequest_def
  outputFormats_def apiBaseURL_def defaultTTSModel_def defaultVoiceModel_def checkHealth_def
  healthRequest_def issued_def Let_def

lemma loadEnv_fields [simp]:
  "trace (loadEnv P s) = trace s" "files (loadEnv P s) = files s" "dirs (loadEnv P s) = dirs s"
  "events (loadEnv P s) = events s" "stdout (loadEnv P s) = stdout s"
  "stderr (loadEnv P s) = stderr s"
  by (simp_all add: loadEnv_def godotenv_Load_def Let_def split: option.splits)

text \<open>Loading the environment files a second time changes nothing.\<close>

lemma loadEnv_idem: "loadEnv P (loadEnv P s) = loadEnv P s"
  by (auto simp: loadEnv_def godotenv_Load_def Let_def fun_eq_iff split: option.splits)

lemma resolveRequired_missing:
  "os_Getenv (loadEnv P s) name = [] \<Longrightarrow>
   resolveRequired name P s =
     (Exit 1,
      eprintln (''ERROR: '' @ name @ '' not found in environment'')
        (otel_Error (name @ '' not found'') [] (loadEnv P s)))"
  by (simp add: resolveRequired_def Let_def)

lemma resolveRequired_present:
  "os_Getenv (loadEnv P s) name \<noteq> [] \<Longrightarrow>
   resolveRequired name P s = (Return (os_Getenv (loadEnv P s) name), loadEnv P s)"
  by (simp add: resolveRequired_def Let_def)

lemma getAPIKey_present:
  "os_Getenv (loadEnv P s) ''ELEVENLABS_API_KEY'' \<noteq> [] \<Longrightarrow>
   getAPIKey P s = (Return (os_Getenv (loadEnv P s) ''ELEVENLABS_API_KEY''), loadEnv P s)"
  by (simp add: getAPIKey_def resolveRequired_present)

lemma getAPIKey_missing:
  "os_Getenv (loadEnv P s) ''ELEVENLABS_API_KEY'' = [] \<Longrightarrow>
   getAPIKey P s =
     (Exit 1,
      eprintln ''ERROR: ELEVENLABS_API_KEY not found in environment''
        (otel_Error ''ELEVENLABS_API_KEY not found'' [] (loadEnv P s)))"
  by (simp add: getAPIKey_def resolveRequired_missing)

lemma resolveRequired_cases:
  "resolveRequired name P s = (r, s') \<Longrightarrow>
     (r = Exit 1 \<and> os_Getenv (loadEnv P s) name = [] \<and> trace s' = trace s \<and> files s' = files s
        \<and> dirs s' = dirs s \<and> stdout s' = stdout s
        \<and> stderr s' = stderr s @ [''ERROR: '' @ name @ '' not found in environment'']
        \<and> events s' = events s @ [(ERROR, name @ '' not found'', [])])
   \<or> (r = Return (os_Getenv (loadEnv P s) name) \<and> os_Getenv (loadEnv P s) name \<noteq> []
        \<and> s' = loadEnv P s)"
  by (auto simp: resolveRequired_def Let_def sinks split: if_splits)

lemma textToSpeech_no_key:
  "os_Getenv (loadEnv P s) ''ELEVENLABS_API_KEY'' = [] \<Longrightarrow>
   textToSpeech P text out v f st sb sy sp b s =
     (Exit 1,
      eprintln ''ERROR: ELEVENLABS_API_KEY not found in environment''
        (otel_Error ''ELEVENLABS_API_KEY not found'' [] (loadEnv P s)))"
  by (simp add: textToSpeech_def getAPIKey_missing)

lemma voiceChange_no_key:
  "os_Getenv (loadEnv P s) ''ELEVENLABS_API_KEY'' = [] \<Longrightarrow>
   voiceChange P inp out v f s =
     (Exit 1,
      eprintln ''ERROR: ELEVENLABS_API_KEY not found in environment''
        (otel_Error ''ELEVENLABS_API_KEY not found'' [] (loadEnv P s)))"
  by (simp add: voiceChange_def getAPIKey_missing)

lemma sample_no_key:
  "os_Getenv (loadEnv sample_platform empty_state) ''ELEVENLABS_API_KEY'' = []"
  by (simp add: model_defs sample_defs)

lemma sample_key:
  "os_Getenv (loadEnv sample_platform keyed_state) ''ELEVENLABS_API_KEY'' = ''sk-1''"
  by (simp add: model_defs sample_defs)

subsection \<open>Facts about the handling of the response\<close>

lemma saveResponse_ok:
  assumes "saveResponse P resp out ev s = (None, s')"
  shows "StatusCode resp = 200 \<and> BodyErr resp = None
    \<and> files s' out = Some (Body resp)
    \<and> trace s' = trace s @ [MkdirAll (filepath_Dir P out), Create out, Write out (Body resp)]
    \<and> set (ancestors (filepath_Dir P) (length (filepath_Dir P out)) (filepath_Dir P out))
         \<subseteq> dirs s'
    \<and> events s' = events s @ [(INFO, ev, [(''output'', AStr out)])]
    \<and> stdout s' = stdout s \<and> stderr s' = stderr s \<and> environ s' = environ s"
  using assms
  by (auto simp: saveResponse_def os_MkdirAll_def os_Create_def io_Copy_def sinks Let_def
      split: if_splits option.splits prod.splits)

lemma saveResponse_frame:
  assumes "saveResponse P resp out ev s = (r, s')"
  shows "\<exists>post. trace s' = trace s @ post \<and> (\<forall>c \<in> set post. \<not> is_NetCall c)
     \<and> (StatusCode resp \<noteq> 200 \<longrightarrow> r = Some (APIError (StatusCode resp) (Body resp)) \<and> s' = s)"
  using assms
  by (auto simp: saveResponse_def os_MkdirAll_def os_Create_def io_Copy_def sinks Let_def
      split: if_splits option.splits prod.splits)

lemma os_Open_state: "os_Open P p s = (r, s') \<Longrightarrow> s' = called (Open p) s"
  by (auto simp: os_Open_def Let_def split: option.splits if_splits)

lemma read_input_state: "read_input P p s = (r, s') \<Longrightarrow> s' = called (ReadFile p) s"
  by (auto simp: read_input_def Let_def split: option.splits if_splits)

subsection \<open>The shape of a run of the two operations\<close>

lemma textToSpeech_ok:
  assumes "textToSpeech P text out v f st sb sy sp b s = (Return None, s')"
  shows "\<exists>req resp. client_Do P 120 req = Inr resp \<and> StatusCode resp = 200
      \<and> files s' out = Some (Body resp)
      \<and> issued s s' = [NetCall 120 req, MkdirAll (filepath_Dir P out), Create out,
                        Write out (Body resp)]
      \<and> set (ancestors (filepath_Dir P) (length (filepath_Dir P out)) (filepath_Dir P out))
           \<subseteq> dirs s'
      \<and> events s' = events s @
           [(INFO, ''tts_request'',
              [(''voice_id'', AStr v), (''format'', AStr f),
               (''text_len'', AInt (int (length text)))]),
            (INFO, ''tts_complete'', [(''output'', AStr out)])]
      \<and> stdout s' = stdout s \<and> stderr s' = stderr s"
  using assms
  by (auto simp: textToSpeech_def getAPIKey_def Let_def sinks issued_def
      split: option.splits sum.splits prod.splits outcome.splits
      dest!: resolveRequired_cases saveResponse_ok)

lemma voiceChange_ok:
  assumes "voiceChange P inp out v f s = (Return None, s')"
  shows "\<exists>req resp. client_Do P 120 req = Inr resp \<and> StatusCode resp = 200
      \<and> files s' out = Some (Body resp)
      \<and> issued s s' = [Open inp, ReadFile inp, NetCall 120 req,
            MkdirAll (filepath_Dir P out), Create out, Write out (Body resp)]
      \<and> set (ancestors (filepath_Dir P) (length (filepath_Dir P out)) (filepath_Dir P out))
           \<subseteq> dirs s'
      \<and> events s' = events s @
           [(INFO, ''voice_change_request'',
              [(''voice_id'', AStr v), (''format'', AStr f), (''input'', AStr inp)]),
            (INFO, ''voice_change_complete'', [(''output'', AStr out)])]
      \<and> stdout s' = stdout s \<and> stderr s' = stderr s"
  using assms
  by (auto simp: voiceChange_def getAPIKey_def Let_def sinks issued_def os_Open_def read_input_def
      split: option.splits sum.splits prod.splits outcome.splits if_splits
      dest!: resolveRequired_cases saveResponse_ok)

lemma textToSpeech_shape:
  assumes run: "textToSpeech P text out v f st sb sy sp b s = (r, s')"
  shows "trace s' = trace s
    \<or> (\<exists>req s3. trace s3 = trace s @ [NetCall 120 req] \<and> files s3 = files s \<and> dirs s3 = dirs s
          \<and> ((\<exists>e. client_Do P 120 req = Inl e \<and> r = Return (Some (NetworkError e)) \<and> s' = s3)
             \<or> (\<exists>resp ro. client_Do P 120 req = Inr resp
                   \<and> saveResponse P resp out ''tts_complete'' s3 = (ro, s') \<and> r = Return ro)))"
proof (cases "os_Getenv (loadEnv P s) ''ELEVENLABS_API_KEY'' = []")
  case True
  with run show ?thesis
    by (auto simp: textToSpeech_def getAPIKey_def resolveRequired_def Let_def sinks)
next
  case False
  note key = getAPIKey_present [OF False]
  let ?key = "os_Getenv (loadEnv P s) ''ELEVENLABS_API_KEY''"
  show ?thesis
  proof (cases "outputFormats f")
    case None
    with run key show ?thesis by (auto simp: textToSpeech_def)
  next
    case (Some af)
    let ?body = "\<lparr>Text = text, ModelID = defaultTTSModel,
                   VoiceSettings = \<lparr>Stability = st, SimilarityBoost = sb, Style = sy,
                                    Speed = sp, UseSpeakerBoost = b\<rparr>\<rparr>"
    let ?url = "apiBaseURL @ ''/text-to-speech/'' @ v @ ''?output_format='' @ af"
    show ?thesis
    proof (cases "json_Marshal P ?body")
      case (Inl e)
      with run key Some show ?thesis by (auto simp: textToSpeech_def)
    next
      case (Inr jb)
      show ?thesis
      proof (cases "http_NewRequest P ''POST'' ?url")
        case (Some e)
        with run key \<open>outputFormats f = Some af\<close> Inr show ?thesis
          by (auto simp: textToSpeech_def)
      next
        case None
        let ?req = "ttsHTTPRequest ?url jb ?key"
        let ?s3 = "called (NetCall 120 ?req)
                     (otel_Info ''tts_request''
                        [(''voice_id'', AStr v), (''format'', AStr f),
                         (''text_len'', AInt (int (length text)))] (loadEnv P s))"
        have s3: "trace ?s3 = trace s @ [NetCall 120 ?req]" "files ?s3 = files s" "dirs ?s3 = dirs s"
          by (simp_all add: sinks)
        have "(\<exists>e. client_Do P 120 ?req = Inl e \<and> r = Return (Some (NetworkError e)) \<and> s' = ?s3)
             \<or> (\<exists>resp ro. client_Do P 120 ?req = Inr resp
                   \<and> saveResponse P resp out ''tts_complete'' ?s3 = (ro, s') \<and> r = Return ro)"
        proof (cases "client_Do P 120 ?req")
          case (Inl e)
          with run key \<open>outputFormats f = Some af\<close> Inr None show ?thesis
            by (simp add: textToSpeech_def Let_def)
        next
          case (Inr resp)
          with run key \<open>outputFormats f = Some af\<close> \<open>json_Marshal P ?body = Inr jb\<close> None
          show ?thesis
            by (auto simp: textToSpeech_def Let_def split: prod.splits)
        qed
        with s3 show ?thesis by blast
      qed
    qed
  qed
qed

lemma textToSpeech_non200:
  assumes run: "textToSpeech P text out v f st sb sy sp b s = (r, s')"
    and call: "NetCall t req \<in> set (issued s s')"
    and resp: "client_Do P t req = Inr resp" "StatusCode resp \<noteq> 200"
  shows "r = Return (Some (APIError (StatusCode resp) (Body resp)))
    \<and> files s' = files s \<and> dirs s' = dirs s \<and> issued s s' = [NetCall t req]"
proof -
  from call have "trace s' \<noteq> trace s" by (auto simp: issued_def)
  with textToSpeech_shape [OF run] obtain req0 s3 where
    s3: "trace s3 = trace s @ [NetCall 120 req0]" "files s3 = files s" "dirs s3 = dirs s"
    and alt: "(\<exists>e. client_Do P 120 req0 = Inl e \<and> r = Return (Some (NetworkError e)) \<and> s' = s3)
             \<or> (\<exists>resp ro. client_Do P 120 req0 = Inr resp
                   \<and> saveResponse P resp out ''tts_complete'' s3 = (ro, s') \<and> r = Return ro)"
    by blast
  from alt show ?thesis
  proof (elim disjE exE conjE)
    fix e assume "client_Do P 120 req0 = Inl e" "s' = s3"
    with call s3 resp show ?thesis by (auto simp: issued_def)
  next
    fix resp0 ro
    assume do: "client_Do P 120 req0 = Inr resp0"
      and save: "saveResponse P resp0 out ''tts_complete'' s3 = (ro, s')" and r: "r = Return ro"
    from saveResponse_frame [OF save] obtain post where
      post: "trace s' = trace s3 @ post" "\<forall>c \<in> set post. \<not> is_NetCall c"
      and non200: "StatusCode resp0 \<noteq> 200 \<longrightarrow>
                     ro = Some (APIError (StatusCode resp0) (Body resp0)) \<and> s' = s3"
      by blast
    from call post s3 have "t = 120 \<and> req = req0" by (auto simp: issued_def)
    with do resp have "resp0 = resp" by simp
    with non200 resp r s3 show ?thesis by (auto simp: issued_def \<open>t = 120 \<and> req = req0\<close>)
  qed
qed


lemma voiceChange_shape:
  assumes run: "voiceChange P inp out v f s = (r, s')"
  shows "(\<forall>c \<in> set (issued s s'). \<not> is_NetCall c)
    \<or> (\<exists>req s5. trace s5 = trace s @ [Open inp, ReadFile inp, NetCall 120 req]
          \<and> files s5 = files s \<and> dirs s5 = dirs s
          \<and> ((\<exists>e. client_Do P 120 req = Inl e \<and> r = Return (Some (NetworkError e)) \<and> s' = s5)
             \<or> (\<exists>resp ro. client_Do P 120 req = Inr resp
                   \<and> saveResponse P resp out ''voice_change_complete'' s5 = (ro, s')
                   \<and> r = Return ro)))"
proof (cases "os_Getenv (loadEnv P s) ''ELEVENLABS_API_KEY'' = []")
  case True
  with run show ?thesis
    by (auto simp: voiceChange_def getAPIKey_def resolveRequired_def Let_def sinks issued_def)
next
  case False
  note key = getAPIKey_present [OF False]
  let ?key = "os_Getenv (loadEnv P s) ''ELEVENLABS_API_KEY''"
  show ?thesis
  proof (cases "outputFormats f")
    case None
    with run key show ?thesis by (auto simp: voiceChange_def issued_def)
  next
    case fmt: (Some af)
    let ?s2 = "called (Open inp) (loadEnv P s)"
    let ?s3 = "called (ReadFile inp) ?s2"
    let ?url = "apiBaseURL @ ''/speech-to-speech/'' @ v @ ''?output_format='' @ af"
    obtain o1 where op: "os_Open P inp (loadEnv P s) = (o1, ?s2)"
      using os_Open_state [of P inp "loadEnv P s"] by (cases "os_Open P inp (loadEnv P s)") auto
    obtain o2 where rd: "read_input P inp ?s2 = (o2, ?s3)"
      using read_input_state [of P inp ?s2] by (cases "read_input P inp ?s2") auto
    show ?thesis
    proof (cases o1)
      case (Some e)
      with run key fmt op show ?thesis by (auto simp: voiceChange_def issued_def sinks)
    next
      case opened: None
      show ?thesis
      proof (cases "multipart_CreateFormFile P ''audio'' (filepath_Base P inp)")
        case (Some e)
        with run key fmt op opened show ?thesis by (auto simp: voiceChange_def issued_def sinks)
      next
        case form: None
        show ?thesis
        proof (cases o2)
          case (Inl e)
          with run key fmt op opened form rd show ?thesis
            by (auto simp: voiceChange_def issued_def sinks)
        next
          case audio: (Inr a)
          show ?thesis
          proof (cases "http_NewRequest P ''POST'' ?url")
            case (Some e)
            with run key fmt op opened form rd audio show ?thesis
              by (auto simp: voiceChange_def issued_def sinks)
          next
            case built: None
            let ?req = "voiceHTTPRequest P ?url inp a ?key"
            let ?s5 = "called (NetCall 120 ?req)
                         (otel_Info ''voice_change_request''
                            [(''voice_id'', AStr v), (''format'', AStr f), (''input'', AStr inp)] ?s3)"
            have s5: "trace ?s5 = trace s @ [Open inp, ReadFile inp, NetCall 120 ?req]"
              "files ?s5 = files s" "dirs ?s5 = dirs s"
              by (simp_all add: sinks)
            have "(\<exists>e. client_Do P 120 ?req = Inl e \<and> r = Return (Some (NetworkError e)) \<and> s' = ?s5)
               \<or> (\<exists>resp ro. client_Do P 120 ?req = Inr resp
                     \<and> saveResponse P resp out ''voice_change_complete'' ?s5 = (ro, s')
                     \<and> r = Return ro)"
            proof (cases "client_Do P 120 ?req")
              case (Inl e)
              with run key fmt op opened form rd audio built show ?thesis
                by (simp add: voiceChange_def Let_def)
            next
              case (Inr resp)
              with run key fmt op opened form rd audio built show ?thesis
                by (auto simp: voiceChange_def Let_def split: prod.splits)
            qed
            with s5 show ?thesis by blast
          qed
        qed
      qed
    qed
  qed
qed

lemma voiceChange_non200:
  assumes run: "voiceChange P inp out v f s = (r, s')"
    and call: "NetCall t req \<in> set (issued s s')"
    and resp: "client_Do P t req = Inr resp" "StatusCode resp \<noteq> 200"
  shows "r = Return (Some (APIError (StatusCode resp) (Body resp)))
    \<and> files s' = files s \<and> dirs s' = dirs s
    \<and> issued s s' = [Open inp, ReadFile inp, NetCall t req]"
proof -
  have "is_NetCall (NetCall t req)" by simp
  with call have "\<not> (\<forall>c \<in> set (issued s s'). \<not> is_NetCall c)" by blast
  with voiceChange_shape [OF run] obtain req0 s5 where
    s5: "trace s5 = trace s @ [Open inp, ReadFile inp, NetCall 120 req0]"
      "files s5 = files s" "dirs s5 = dirs s"
    and alt: "(\<exists>e. client_Do P 120 req0 = Inl e \<and> r = Return (Some (NetworkError e)) \<and> s' = s5)
             \<or> (\<exists>resp ro. client_Do P 120 req0 = Inr resp
                   \<and> saveResponse P resp out ''voice_change_complete'' s5 = (ro, s')
                   \<and> r = Return ro)"
    by blast
  from alt show ?thesis
  proof (elim disjE exE conjE)
    fix e assume "client_Do P 120 req0 = Inl e" "s' = s5"
    with call s5 resp show ?thesis by (auto simp: issued_def)
  next
    fix resp0 ro
    assume do: "client_Do P 120 req0 = Inr resp0"
      and save: "saveResponse P resp0 out ''voice_change_complete'' s5 = (ro, s')"
      and r: "r = Return ro"
    from saveResponse_frame [OF save] obtain post where
      post: "trace s' = trace s5 @ post" "\<forall>c \<in> set post. \<not> is_NetCall c"
      and non200: "StatusCode resp0 \<noteq> 200 \<longrightarrow>
                     ro = Some (APIError (StatusCode resp0) (Body resp0)) \<and> s' = s5"
      by blast
    from call post s5 have eq: "t = 120 \<and> req = req0" by (auto simp: issued_def)
    with do resp have "resp0 = resp" by simp
    with non200 resp r s5 show ?thesis by (auto simp: issued_def eq)
  qed
qed


subsection \<open>Changing one environment variable\<close>

lemma with_env_fields [simp]:
  "trace (with_env k x s) = trace s" "files (with_env k x s) = files s"
  "dirs (with_env k x s) = dirs s" "events (with_env k x s) = events s"
  "stdout (with_env k x s) = stdout s" "stderr (with_env k x s) = stderr s"
  "n \<noteq> k \<Longrightarrow> environ (with_env k x s) n = environ s n"
  by (simp_all add: with_env_def)

lemma with_env_twice [simp]: "with_env k z (with_env k x s) = with_env k z s"
  by (simp add: with_env_def)

lemma godotenv_Load_with_env:
  "\<exists>z. godotenv_Load P p (with_env k x s) = with_env k z (godotenv_Load P p s)"
proof (cases "dotenv_file P p")
  case None
  then show ?thesis by (auto simp: godotenv_Load_def)
next
  case (Some f)
  have "godotenv_Load P p (with_env k x s)
          = with_env k (case x of Some v \<Rightarrow> Some v | None \<Rightarrow> f k) (godotenv_Load P p s)"
    using Some by (auto simp: godotenv_Load_def with_env_def fun_eq_iff split: option.splits)
  then show ?thesis by blast
qed

lemma loadEnv_with_env: "\<exists>z. loadEnv P (with_env k x s) = with_env k z (loadEnv P s)"
proof -
  have step: "\<exists>z. (case exeEnvPath P of None \<Rightarrow> with_env k x s
                     | Some envPath \<Rightarrow> godotenv_Load P envPath (with_env k x s))
                 = with_env k z (case exeEnvPath P of None \<Rightarrow> s
                     | Some envPath \<Rightarrow> godotenv_Load P envPath s)"
    using godotenv_Load_with_env by (cases "exeEnvPath P") auto
  then obtain z where z: "(case exeEnvPath P of None \<Rightarrow> with_env k x s
                     | Some envPath \<Rightarrow> godotenv_Load P envPath (with_env k x s))
                 = with_env k z (case exeEnvPath P of None \<Rightarrow> s
                     | Some envPath \<Rightarrow> godotenv_Load P envPath s)" ..
  show ?thesis
    unfolding loadEnv_def Let_def z by (rule godotenv_Load_with_env)
qed

lemma os_Getenv_with_env [simp]: "n \<noteq> k \<Longrightarrow> os_Getenv (with_env k x s) n = os_Getenv s n"
  by (simp add: os_Getenv_def)

lemma sinks_with_env [simp]:
  "otel_Info n a (with_env k z s) = with_env k z (otel_Info n a s)"
  "otel_Error n a (with_env k z s) = with_env k z (otel_Error n a s)"
  "println l (with_env k z s) = with_env k z (println l s)"
  "eprintln l (with_env k z s) = with_env k z (eprintln l s)"
  "called c (with_env k z s) = with_env k z (called c s)"
  by (simp_all add: sinks with_env_def)

lemma resolveRequired_with_env:
  assumes "n \<noteq> k"
  shows "\<exists>z. resolveRequired n P (with_env k x s) = apsnd (with_env k z) (resolveRequired n P s)"
proof -
  obtain z where z: "loadEnv P (with_env k x s) = with_env k z (loadEnv P s)"
    using loadEnv_with_env by blast
  have "resolveRequired n P (with_env k x s) = apsnd (with_env k z) (resolveRequired n P s)"
    using assms by (simp add: resolveRequired_def Let_def z)
  then show ?thesis ..
qed

lemma fs_with_env [simp]:
  "os_MkdirAll P p (with_env k z s) = apsnd (with_env k z) (os_MkdirAll P p s)"
  "os_Create P p (with_env k z s) = apsnd (with_env k z) (os_Create P p s)"
  "io_Copy P p resp (with_env k z s) = apsnd (with_env k z) (io_Copy P p resp s)"
  "os_Open P p (with_env k z s) = apsnd (with_env k z) (os_Open P p s)"
  "read_input P p (with_env k z s) = apsnd (with_env k z) (read_input P p s)"
  "stat_IsNotExist (with_env k z s) p = stat_IsNotExist s p"
  by (auto simp: os_MkdirAll_def os_Create_def io_Copy_def os_Open_def read_input_def
      stat_IsNotExist_def Let_def with_env_def sinks split: option.splits)

lemma saveResponse_with_env [simp]:
  "saveResponse P resp out ev (with_env k z s) = apsnd (with_env k z) (saveResponse P resp out ev s)"
  by (cases "os_MkdirAll P (filepath_Dir P out) s"; cases "os_Create P out (snd (os_MkdirAll P (filepath_Dir P out) s))";
      cases "io_Copy P out resp (snd (os_Create P out (snd (os_MkdirAll P (filepath_Dir P out) s))))")
     (auto simp: saveResponse_def split: option.splits)


lemma textToSpeech_with_env:
  assumes "k \<noteq> ''ELEVENLABS_API_KEY''"
  shows "\<exists>z. textToSpeech P text out v f st sb sy sp b (with_env k x s)
              = apsnd (with_env k z) (textToSpeech P text out v f st sb sy sp b s)"
proof -
  obtain z where z: "getAPIKey P (with_env k x s) = apsnd (with_env k z) (getAPIKey P s)"
    unfolding getAPIKey_def using resolveRequired_with_env [of "''ELEVENLABS_API_KEY''" k] assms by blast
  obtain r0 s1 where g: "getAPIKey P s = (r0, s1)" by (cases "getAPIKey P s")
  have "textToSpeech P text out v f st sb sy sp b (with_env k x s)
              = apsnd (with_env k z) (textToSpeech P text out v f st sb sy sp b s)"
    by (cases r0)
       (simp_all add: textToSpeech_def z g Let_def split_beta
          split: option.splits sum.splits)
  then show ?thesis ..
qed

lemma voiceChange_with_env:
  assumes "k \<noteq> ''ELEVENLABS_API_KEY''"
  shows "\<exists>z. voiceChange P inp out v f (with_env k x s)
              = apsnd (with_env k z) (voiceChange P inp out v f s)"
proof -
  obtain z where z: "getAPIKey P (with_env k x s) = apsnd (with_env k z) (getAPIKey P s)"
    unfolding getAPIKey_def using resolveRequired_with_env [of "''ELEVENLABS_API_KEY''" k] assms by blast
  obtain r0 s1 where g: "getAPIKey P s = (r0, s1)" by (cases "getAPIKey P s")
  obtain o1 s2 where op: "os_Open P inp s1 = (o1, s2)" by (cases "os_Open P inp s1")
  obtain o2 s3 where rd: "read_input P inp s2 = (o2, s3)" by (cases "read_input P inp s2")
  have "voiceChange P inp out v f (with_env k x s)
              = apsnd (with_env k z) (voiceChange P inp out v f s)"
    by (cases r0)
       (simp_all add: voiceChange_def z g op rd Let_def split_beta
          split: option.splits sum.splits)
  then show ?thesis ..
qed

lemma cmdTTS_with_env:
  assumes "fl_voice fl \<noteq> []"
  shows "\<exists>z. cmdTTS P fl (with_env ''ELEVENLABS_TTS_VOICE_ID'' x s)
              = apsnd (with_env ''ELEVENLABS_TTS_VOICE_ID'' z) (cmdTTS P fl s)"
proof (cases "length (fl_args fl) < 1")
  case True
  then have "cmdTTS P fl (with_env ''ELEVENLABS_TTS_VOICE_ID'' x s)
              = apsnd (with_env ''ELEVENLABS_TTS_VOICE_ID'' x) (cmdTTS P fl s)"
    by (simp add: cmdTTS_def)
  then show ?thesis ..
next
  case False
  let ?run = "\<lambda>s. textToSpeech P (fl_args fl ! 0) (fl_output fl) (fl_voice fl) (fl_format fl)
                  (fl_stability fl) (fl_similarityBoost fl) (fl_style fl) (fl_speed fl)
                  (\<not> fl_noSpeakerBoost fl) s"
  obtain z where z: "?run (with_env ''ELEVENLABS_TTS_VOICE_ID'' x s)
                       = apsnd (with_env ''ELEVENLABS_TTS_VOICE_ID'' z) (?run s)"
    using textToSpeech_with_env [of "''ELEVENLABS_TTS_VOICE_ID''"] by blast
  obtain r s' where r: "?run s = (r, s')" by (cases "?run s")
  have "cmdTTS P fl (with_env ''ELEVENLABS_TTS_VOICE_ID'' x s)
              = apsnd (with_env ''ELEVENLABS_TTS_VOICE_ID'' z) (cmdTTS P fl s)"
    using False assms
    by (simp add: cmdTTS_def Let_def z r split: outcome.splits option.splits)
  then show ?thesis ..
qed

lemma cmdVoice_with_env:
  assumes "fl_voice fl \<noteq> []"
  shows "\<exists>z. cmdVoice P fl (with_env ''ELEVENLABS_VOICE_CHANGE_ID'' x s)
              = apsnd (with_env ''ELEVENLABS_VOICE_CHANGE_ID'' z) (cmdVoice P fl s)"
proof (cases "length (fl_args fl) < 1 \<or> stat_IsNotExist s (fl_args fl ! 0)")
  case True
  then have "cmdVoice P fl (with_env ''ELEVENLABS_VOICE_CHANGE_ID'' x s)
              = apsnd (with_env ''ELEVENLABS_VOICE_CHANGE_ID'' x) (cmdVoice P fl s)"
    by (auto simp: cmdVoice_def Let_def)
  then show ?thesis ..
next
  case False
  let ?run = "\<lambda>s. voiceChange P (fl_args fl ! 0) (fl_output fl) (fl_voice fl) (fl_format fl) s"
  obtain z where z: "?run (with_env ''ELEVENLABS_VOICE_CHANGE_ID'' x s)
                       = apsnd (with_env ''ELEVENLABS_VOICE_CHANGE_ID'' z) (?run s)"
    using voiceChange_with_env [of "''ELEVENLABS_VOICE_CHANGE_ID''"] by blast
  obtain r s' where r: "?run s = (r, s')" by (cases "?run s")
  have "cmdVoice P fl (with_env ''ELEVENLABS_VOICE_CHANGE_ID'' x s)
              = apsnd (with_env ''ELEVENLABS_VOICE_CHANGE_ID'' z) (cmdVoice P fl s)"
    using False assms
    by (simp add: cmdVoice_def Let_def z r split: outcome.splits option.splits)
  then show ?thesis ..
qed

subsection \<open>Both commands without a credential\<close>

lemma cmdTTS_no_key:
  assumes "os_Getenv (loadEnv P s) ''ELEVENLABS_API_KEY'' = []"
  shows "fst (cmdTTS P fl s) = Exit 1 \<and> trace (snd (cmdTTS P fl s)) = trace s"
proof -
  have again: "os_Getenv (loadEnv P (loadEnv P s)) ''ELEVENLABS_API_KEY'' = []"
    using assms by (simp add: loadEnv_idem)
  show ?thesis
  proof (cases "fl_voice fl = [] \<and> os_Getenv (loadEnv P s) ''ELEVENLABS_TTS_VOICE_ID'' \<noteq> []")
    case True
    then show ?thesis
      by (simp add: cmdTTS_def Let_def getTTSVoiceID_def resolveRequired_present
          textToSpeech_no_key [OF again] sinks)
  next
    case False
    then show ?thesis
      by (auto simp: cmdTTS_def Let_def getTTSVoiceID_def resolveRequired_missing
          textToSpeech_no_key [OF assms] sinks)
  qed
qed

lemma cmdVoice_no_key:
  assumes "os_Getenv (loadEnv P s) ''ELEVENLABS_API_KEY'' = []"
  shows "fst (cmdVoice P fl s) = Exit 1 \<and> trace (snd (cmdVoice P fl s)) = trace s"
proof -
  have again: "os_Getenv (loadEnv P (loadEnv P s)) ''ELEVENLABS_API_KEY'' = []"
    using assms by (simp add: loadEnv_idem)
  show ?thesis
  proof (cases "fl_voice fl = [] \<and> os_Getenv (loadEnv P s) ''ELEVENLABS_VOICE_CHANGE_ID'' \<noteq> []")
    case True
    then show ?thesis
      by (simp add: cmdVoice_def Let_def getVoiceChangeID_def resolveRequired_present
          voiceChange_no_key [OF again] sinks)
  next
    case False
    then show ?thesis
      by (auto simp: cmdVoice_def Let_def getVoiceChangeID_def resolveRequired_missing
          voiceChange_no_key [OF assms] sinks)
  qed
qed

section \<open>The claims\<close>

subsection \<open>The format table\<close>

text \<open>
  Claim C1. The three format names opus, mp3 and pcm are mapped to the wire tokens
  opus_48000_96, mp3_44100_128 and pcm_44100. Every other string, the upper-case OPUS
  among them, is not in the table: once the credential has been resolved, synthesis and
  transformation both return the error \<open>UnsupportedFormat\<close>, whose text ends with the
  string that was given, and neither issues a call.
\<close>

theorem format_table:
  "outputFormats ''opus'' = Some ''opus_48000_96''
   \<and> outputFormats ''mp3'' = Some ''mp3_44100_128''
   \<and> outputFormats ''pcm'' = Some ''pcm_44100''
   \<and> outputFormats ''OPUS'' = None
   \<and> (f \<notin> {''opus'', ''mp3'', ''pcm''} \<longrightarrow>
        outputFormats f = None
        \<and> Error (UnsupportedFormat f) = ''unsupported format: '' @ f
        \<and> (os_Getenv (loadEnv P s) ''ELEVENLABS_API_KEY'' \<noteq> [] \<longrightarrow>
             fst (textToSpeech P msg out v f st sb sy sp b s) = Return (Some (UnsupportedFormat f))
             \<and> fst (voiceChange P inp out v f s) = Return (Some (UnsupportedFormat f))
             \<and> trace (snd (textToSpeech P msg out v f st sb sy sp b s)) = trace s
             \<and> trace (snd (voiceChange P inp out v f s)) = trace s))"
  by (auto simp: outputFormats_def textToSpeech_def voiceChange_def getAPIKey_present)

theorem format_table_witness:
  "''OPUS'' \<notin> {''opus'', ''mp3'', ''pcm''}
   \<and> os_Getenv (loadEnv sample_platform keyed_state) ''ELEVENLABS_API_KEY'' \<noteq> []
   \<and> fst (textToSpeech sample_platform ''hi'' ''/tmp/out/speech.ogg'' ''v1'' ''OPUS'' 0 0 0 0 True
            keyed_state)
       = Return (Some (UnsupportedFormat ''OPUS''))
   \<and> fst (voiceChange sample_platform ''/tmp/in.ogg'' ''/tmp/out/voice.ogg'' ''v1'' ''OPUS''
            keyed_state)
       = Return (Some (UnsupportedFormat ''OPUS''))
   \<and> Error (UnsupportedFormat ''OPUS'') = ''unsupported format: OPUS''"
proof -
  have h1: "''OPUS'' \<notin> {''opus'', ''mp3'', ''pcm''}" by simp
  have h2: "os_Getenv (loadEnv sample_platform keyed_state) ''ELEVENLABS_API_KEY'' \<noteq> []"
    by (simp add: sample_key)
  show ?thesis
    using h1 h2
      format_table [where f = "''OPUS''" and P = sample_platform and s = keyed_state
        and msg = "''hi''" and out = "''/tmp/out/speech.ogg''" and v = "''v1''"
        and st = 0 and sb = 0 and sy = 0 and sp = 0 and b = True]
      format_table [where f = "''OPUS''" and P = sample_platform and s = keyed_state
        and inp = "''/tmp/in.ogg''" and out = "''/tmp/out/voice.ogg''" and v = "''v1''"]
    by simp
qed

subsection \<open>No credential, no network call\<close>

text \<open>
  Claim C2. When the variable ELEVENLABS_API_KEY is absent or empty in the environment (as
  it is after the environment files have been loaded), synthesis and transformation both
  end the process with status 1 after reporting that the credential was not found, on the
  error stream and as an error event, and the list of calls is what it was before: no
  network call has been issued. The same holds for the two commands that run them.
\<close>

theorem no_credential_no_network:
  assumes "os_Getenv (loadEnv P s) ''ELEVENLABS_API_KEY'' = []"
  shows "fst (textToSpeech P msg out v f st sb sy sp b s) = Exit 1
    \<and> trace (snd (textToSpeech P msg out v f st sb sy sp b s)) = trace s
    \<and> stderr (snd (textToSpeech P msg out v f st sb sy sp b s))
        = stderr s @ [''ERROR: ELEVENLABS_API_KEY not found in environment'']
    \<and> events (snd (textToSpeech P msg out v f st sb sy sp b s))
        = events s @ [(ERROR, ''ELEVENLABS_API_KEY not found'', [])]
    \<and> fst (voiceChange P inp out v f s) = Exit 1
    \<and> trace (snd (voiceChange P inp out v f s)) = trace s
    \<and> stderr (snd (voiceChange P inp out v f s))
        = stderr s @ [''ERROR: ELEVENLABS_API_KEY not found in environment'']
    \<and> events (snd (voiceChange P inp out v f s))
        = events s @ [(ERROR, ''ELEVENLABS_API_KEY not found'', [])]
    \<and> fst (cmdTTS P fl s) = Exit 1 \<and> trace (snd (cmdTTS P fl s)) = trace s
    \<and> fst (cmdVoice P fv s) = Exit 1 \<and> trace (snd (cmdVoice P fv s)) = trace s"
  using assms cmdTTS_no_key [OF assms, of fl] cmdVoice_no_key [OF assms, of fv]
  by (simp add: textToSpeech_no_key voiceChange_no_key sinks)

theorem no_credential_no_network_witness:
  "os_Getenv (loadEnv sample_platform empty_state) ''ELEVENLABS_API_KEY'' = []
   \<and> fst (textToSpeech sample_platform ''hi'' ''/tmp/out/speech.ogg'' ''v1'' ''opus'' 0 0 0 0 True
            empty_state) = Exit 1
   \<and> trace (snd (textToSpeech sample_platform ''hi'' ''/tmp/out/speech.ogg'' ''v1'' ''opus''
            0 0 0 0 True empty_state)) = []
   \<and> fst (voiceChange sample_platform ''/tmp/in.ogg'' ''/tmp/out/voice.ogg'' ''v1'' ''opus''
            empty_state) = Exit 1
   \<and> trace (snd (voiceChange sample_platform ''/tmp/in.ogg'' ''/tmp/out/voice.ogg'' ''v1'' ''opus''
            empty_state)) = []"
proof -
  have t: "trace empty_state = []" by (simp add: empty_state_def)
  show ?thesis
    using sample_no_key no_credential_no_network [OF sample_no_key] t by simp
qed

subsection \<open>Two environment files\<close>

text \<open>
  Claim C3, as stated, fails: with a file beside the executable and a file in the working
  directory that both define ELEVENLABS_API_KEY, and a process environment that does not,
  the value that is resolved is the one of the file beside the executable, which is loaded
  first, and not the one of the file that is loaded last.
\<close>

theorem last_load_counterexample:
  "exeEnvPath two_files_platform = Some ''/opt/pink/.env''
   \<and> dotenv_value two_files_platform ''/opt/pink/.env'' ''ELEVENLABS_API_KEY''
       = Some ''key-beside-exe''
   \<and> dotenv_value two_files_platform ''.env'' ''ELEVENLABS_API_KEY'' = Some ''key-in-cwd''
   \<and> environ empty_state ''ELEVENLABS_API_KEY'' = None
   \<and> fst (getAPIKey two_files_platform empty_state) = Return ''key-beside-exe''
   \<and> fst (getAPIKey two_files_platform empty_state) \<noteq> Return ''key-in-cwd''"
  by (simp add: model_defs sample_defs two_files_platform_def dotenv_value_def)

text \<open>
  Claim C3, amended. The environment file beside the executable is loaded first and the
  file in the working directory second. When both define a name that the process
  environment does not, the file loaded first determines the value: the required setting
  is that value, or is reported missing when that value is empty.
\<close>

theorem first_load_wins:
  assumes "exeEnvPath P = Some p"
    and "dotenv_value P p name = Some v"
    and "dotenv_value P ''.env'' name = Some v'"
    and "environ s name = None"
  shows "loadEnv P s = godotenv_Load P ''.env'' (godotenv_Load P p s)
    \<and> os_Getenv (loadEnv P s) name = v
    \<and> (v \<noteq> [] \<longrightarrow> fst (resolveRequired name P s) = Return v)
    \<and> (v = [] \<longrightarrow> fst (resolveRequired name P s) = Exit 1)"
  using assms
  by (auto simp: loadEnv_def godotenv_Load_def os_Getenv_def resolveRequired_def dotenv_value_def
      Let_def split: option.splits)

theorem first_load_wins_witness:
  "exeEnvPath two_files_platform = Some ''/opt/pink/.env''
   \<and> dotenv_value two_files_platform ''/opt/pink/.env'' ''ELEVENLABS_API_KEY''
       = Some ''key-beside-exe''
   \<and> dotenv_value two_files_platform ''.env'' ''ELEVENLABS_API_KEY'' = Some ''key-in-cwd''
   \<and> environ empty_state ''ELEVENLABS_API_KEY'' = None
   \<and> os_Getenv (loadEnv two_files_platform empty_state) ''ELEVENLABS_API_KEY''
       = ''key-beside-exe''
   \<and> fst (resolveRequired ''ELEVENLABS_API_KEY'' two_files_platform empty_state)
       = Return ''key-beside-exe''"
proof -
  have h1: "exeEnvPath two_files_platform = Some ''/opt/pink/.env''"
    by (simp add: model_defs sample_defs two_files_platform_def dotenv_value_def)
  have h2: "dotenv_value two_files_platform ''/opt/pink/.env'' ''ELEVENLABS_API_KEY''
              = Some ''key-beside-exe''"
    by (simp add: model_defs sample_defs two_files_platform_def dotenv_value_def)
  have h3: "dotenv_value two_files_platform ''.env'' ''ELEVENLABS_API_KEY'' = Some ''key-in-cwd''"
    by (simp add: model_defs sample_defs two_files_platform_def dotenv_value_def)
  have h4: "environ empty_state ''ELEVENLABS_API_KEY'' = None"
    by (simp add: empty_state_def)
  note w = first_load_wins [OF h1 h2 h3 h4]
  from w have a: "os_Getenv (loadEnv two_files_platform empty_state) ''ELEVENLABS_API_KEY''
                    = ''key-beside-exe''"
    by blast
  from w have "''key-beside-exe'' \<noteq> [] \<longrightarrow>
      fst (resolveRequired ''ELEVENLABS_API_KEY'' two_files_platform empty_state)
        = Return ''key-beside-exe''"
    by blast
  then have b: "fst (resolveRequired ''ELEVENLABS_API_KEY'' two_files_platform empty_state)
                  = Return ''key-beside-exe''"
    by simp
  from h1 h2 h3 h4 a b show ?thesis by blast
qed

subsection \<open>A successful response is written to the destination\<close>

text \<open>
  Claim C4. When synthesis returns without error, its one network call was answered with
  status 200 and a body \<open>B\<close>; the file at the destination path then holds exactly \<open>B\<close>;
  the directory of the destination and every directory above it exist; and the calls of
  the run are, in this order, the request, the creation of the directories, the creation
  of the file and the write of \<open>B\<close>. The same holds for transformation, whose run begins
  with opening and reading the source file.
\<close>

theorem success_writes_body:
  "(textToSpeech P msg out v f st sb sy sp b s = (Return None, s') \<longrightarrow>
      (\<exists>req resp. client_Do P 120 req = Inr resp \<and> StatusCode resp = 200
         \<and> files s' out = Some (Body resp)
         \<and> issued s s' = [NetCall 120 req, MkdirAll (filepath_Dir P out), Create out,
                           Write out (Body resp)]
         \<and> set (ancestors (filepath_Dir P) (length (filepath_Dir P out)) (filepath_Dir P out))
              \<subseteq> dirs s'))
   \<and> (voiceChange P inp out v f s = (Return None, s') \<longrightarrow>
      (\<exists>req resp. client_Do P 120 req = Inr resp \<and> StatusCode resp = 200
         \<and> files s' out = Some (Body resp)
         \<and> issued s s' = [Open inp, ReadFile inp, NetCall 120 req,
                           MkdirAll (filepath_Dir P out), Create out, Write out (Body resp)]
         \<and> set (ancestors (filepath_Dir P) (length (filepath_Dir P out)) (filepath_Dir P out))
              \<subseteq> dirs s'))"
proof (intro conjI impI)
  assume "textToSpeech P msg out v f st sb sy sp b s = (Return None, s')"
  from textToSpeech_ok [OF this]
  show "\<exists>req resp. client_Do P 120 req = Inr resp \<and> StatusCode resp = 200
         \<and> files s' out = Some (Body resp)
         \<and> issued s s' = [NetCall 120 req, MkdirAll (filepath_Dir P out), Create out,
                           Write out (Body resp)]
         \<and> set (ancestors (filepath_Dir P) (length (filepath_Dir P out)) (filepath_Dir P out))
              \<subseteq> dirs s'"
    by blast
next
  assume "voiceChange P inp out v f s = (Return None, s')"
  from voiceChange_ok [OF this]
  show "\<exists>req resp. client_Do P 120 req = Inr resp \<and> StatusCode resp = 200
         \<and> files s' out = Some (Body resp)
         \<and> issued s s' = [Open inp, ReadFile inp, NetCall 120 req,
                           MkdirAll (filepath_Dir P out), Create out, Write out (Body resp)]
         \<and> set (ancestors (filepath_Dir P) (length (filepath_Dir P out)) (filepath_Dir P out))
              \<subseteq> dirs s'"
    by blast
qed

theorem success_writes_body_witness:
  "fst (textToSpeech sample_platform ''hello'' ''/tmp/out/speech.ogg'' ''v1'' ''opus'' 0 0 0 0 True
          keyed_state) = Return None
   \<and> files (snd (textToSpeech sample_platform ''hello'' ''/tmp/out/speech.ogg'' ''v1'' ''opus''
          0 0 0 0 True keyed_state)) ''/tmp/out/speech.ogg'' = Some ''OggS-audio''
   \<and> {''/tmp/out'', ''/tmp''}
       \<subseteq> dirs (snd (textToSpeech sample_platform ''hello'' ''/tmp/out/speech.ogg'' ''v1'' ''opus''
          0 0 0 0 True keyed_state))
   \<and> fst (voiceChange sample_platform ''/tmp/in.ogg'' ''/tmp/out/voice.ogg'' ''v2'' ''opus''
          input_state) = Return None
   \<and> files (snd (voiceChange sample_platform ''/tmp/in.ogg'' ''/tmp/out/voice.ogg'' ''v2'' ''opus''
          input_state)) ''/tmp/out/voice.ogg'' = Some ''OggS-audio''"
proof -
  let ?t = "textToSpeech sample_platform ''hello'' ''/tmp/out/speech.ogg'' ''v1'' ''opus''
              0 0 0 0 True keyed_state"
  let ?c = "voiceChange sample_platform ''/tmp/in.ogg'' ''/tmp/out/voice.ogg'' ''v2'' ''opus''
              input_state"
  have t: "fst ?t = Return None" by (simp add: model_defs sample_defs sinks)
  have c: "fst ?c = Return None" by (simp add: model_defs sample_defs sinks)
  have ht: "?t = (Return None, snd ?t)" using t by (simp add: prod_eq_iff)
  have hc: "?c = (Return None, snd ?c)" using c by (simp add: prod_eq_iff)
  have d: "filepath_Dir sample_platform = unix_Dir" by (simp add: sample_platform_def)
  have r: "\<And>t q resp. client_Do sample_platform t q = Inr resp \<Longrightarrow> Body resp = ''OggS-audio''"
    by (auto simp: sample_platform_def sample_response_def)
  from success_writes_body [where P = sample_platform and s = keyed_state and s' = "snd ?t"
      and msg = "''hello''" and out = "''/tmp/out/speech.ogg''" and v = "''v1''"
      and f = "''opus''" and st = 0 and sb = 0 and sy = 0 and sp = 0 and b = True] ht
  obtain req resp where
    "client_Do sample_platform 120 req = Inr resp"
    "files (snd ?t) ''/tmp/out/speech.ogg'' = Some (Body resp)"
    "set (ancestors (filepath_Dir sample_platform)
            (length (filepath_Dir sample_platform ''/tmp/out/speech.ogg''))
            (filepath_Dir sample_platform ''/tmp/out/speech.ogg'')) \<subseteq> dirs (snd ?t)"
    by blast
  with r have 1: "files (snd ?t) ''/tmp/out/speech.ogg'' = Some ''OggS-audio''
             \<and> {''/tmp/out'', ''/tmp''} \<subseteq> dirs (snd ?t)"
    by (simp add: d unix_Dir_def)
  from success_writes_body [where P = sample_platform and s = input_state and s' = "snd ?c"
      and inp = "''/tmp/in.ogg''" and out = "''/tmp/out/voice.ogg''" and v = "''v2''"
      and f = "''opus''"] hc
  obtain req' resp' where
    "client_Do sample_platform 120 req' = Inr resp'"
    "files (snd ?c) ''/tmp/out/voice.ogg'' = Some (Body resp')"
    by blast
  with r have 2: "files (snd ?c) ''/tmp/out/voice.ogg'' = Some ''OggS-audio''"
    by simp
  from t c 1 2 show ?thesis by blast
qed

subsection \<open>A response that is not 200\<close>

text \<open>
  Claim C5. When the request that an operation issued is answered with a status other
  than 200, the operation returns the error \<open>APIError\<close> with that status and with the
  bytes of the response body; the text of the error is "API error", the status in decimal,
  a colon and the body, unchanged. The files and directories are what they were before the
  run, and nothing is called after the request.
\<close>

theorem non200_is_APIError:
  assumes "client_Do P t req = Inr resp" and "StatusCode resp \<noteq> 200"
  shows "(textToSpeech P msg out v f st sb sy sp b s = (r, s')
            \<and> NetCall t req \<in> set (issued s s') \<longrightarrow>
          r = Return (Some (APIError (StatusCode resp) (Body resp)))
          \<and> files s' = files s \<and> dirs s' = dirs s \<and> issued s s' = [NetCall t req])
    \<and> (voiceChange P inp out v f s = (r, s') \<and> NetCall t req \<in> set (issued s s') \<longrightarrow>
          r = Return (Some (APIError (StatusCode resp) (Body resp)))
          \<and> files s' = files s \<and> dirs s' = dirs s
          \<and> issued s s' = [Open inp, ReadFile inp, NetCall t req])
    \<and> Error (APIError (StatusCode resp) (Body resp))
         = ''API error '' @ itoa (StatusCode resp) @ '': '' @ Body resp"
proof -
  have 1: "textToSpeech P msg out v f st sb sy sp b s = (r, s')
            \<and> NetCall t req \<in> set (issued s s') \<longrightarrow>
          r = Return (Some (APIError (StatusCode resp) (Body resp)))
          \<and> files s' = files s \<and> dirs s' = dirs s \<and> issued s s' = [NetCall t req]"
    using textToSpeech_non200 [OF _ _ assms] by blast
  have 2: "voiceChange P inp out v f s = (r, s') \<and> NetCall t req \<in> set (issued s s') \<longrightarrow>
          r = Return (Some (APIError (StatusCode resp) (Body resp)))
          \<and> files s' = files s \<and> dirs s' = dirs s
          \<and> issued s s' = [Open inp, ReadFile inp, NetCall t req]"
    using voiceChange_non200 [OF _ _ assms] by blast
  have 3: "Error (APIError (StatusCode resp) (Body resp))
         = ''API error '' @ itoa (StatusCode resp) @ '': '' @ Body resp"
    by simp
  from 1 2 3 show ?thesis by blast
qed

theorem non200_is_APIError_witness:
  "client_Do refusing_platform 120
       (ttsHTTPRequest ''https://api.elevenlabs.io/v1/text-to-speech/v1?output_format=opus_48000_96''
          ''{text:hello}'' ''sk-1'')
     = Inr \<lparr>StatusCode = 422, Body = ''{detail:bad voice}'', BodyErr = None\<rparr>
   \<and> (422 :: int) \<noteq> 200
   \<and> NetCall 120
       (ttsHTTPRequest ''https://api.elevenlabs.io/v1/text-to-speech/v1?output_format=opus_48000_96''
          ''{text:hello}'' ''sk-1'')
       \<in> set (issued keyed_state
                (snd (textToSpeech refusing_platform ''hello'' ''/tmp/out/speech.ogg'' ''v1'' ''opus''
                        0 0 0 0 True keyed_state)))
   \<and> fst (textToSpeech refusing_platform ''hello'' ''/tmp/out/speech.ogg'' ''v1'' ''opus''
            0 0 0 0 True keyed_state)
       = Return (Some (APIError 422 ''{detail:bad voice}''))
   \<and> files (snd (textToSpeech refusing_platform ''hello'' ''/tmp/out/speech.ogg'' ''v1'' ''opus''
            0 0 0 0 True keyed_state)) ''/tmp/out/speech.ogg'' = None
   \<and> Error (APIError 422 ''{detail:bad voice}'') = ''API error 422: {detail:bad voice}''"
proof -
  let ?req = "ttsHTTPRequest
      ''https://api.elevenlabs.io/v1/text-to-speech/v1?output_format=opus_48000_96''
      ''{text:hello}'' ''sk-1''"
  let ?resp = "\<lparr>StatusCode = 422, Body = ''{detail:bad voice}'', BodyErr = None\<rparr>"
  let ?t = "textToSpeech refusing_platform ''hello'' ''/tmp/out/speech.ogg'' ''v1'' ''opus''
              0 0 0 0 True keyed_state"
  have h1: "client_Do refusing_platform 120 ?req = Inr ?resp" by (simp add: sample_defs)
  have h2: "StatusCode ?resp \<noteq> 200" by simp
  have h3: "NetCall 120 ?req \<in> set (issued keyed_state (snd ?t))"
    by (simp add: model_defs sample_defs sinks)
  have h4: "?t = (fst ?t, snd ?t)" by simp
  have f: "files keyed_state ''/tmp/out/speech.ogg'' = None" by (simp add: sample_defs)
  have i: "itoa 422 = ''422''" by (simp add: itoa_def digits.simps)
  from non200_is_APIError [OF h1 h2, where msg = "''hello''" and out = "''/tmp/out/speech.ogg''"
      and v = "''v1''" and f = "''opus''" and st = 0 and sb = 0 and sy = 0 and sp = 0
      and b = True and s = keyed_state and r = "fst ?t" and s' = "snd ?t"] h3 h4
  have "fst ?t = Return (Some (APIError 422 ''{detail:bad voice}''))
      \<and> files (snd ?t) = files keyed_state
      \<and> Error (APIError 422 ''{detail:bad voice}'') = ''API error '' @ itoa 422 @ '': {detail:bad voice}''"
    by simp
  with h1 h3 f i show ?thesis by simp
qed

subsection \<open>The liveness probe\<close>

text \<open>
  Claim C6. The probe returns true exactly when it has issued its one request, a GET of
  the address of the service followed by /user with the resolved credential in the header,
  and the answer to that request has status 200. For an answer with another status and for
  a request that fails without an answer it returns false. It writes nothing to the two
  output streams and emits no event: the boolean is its only signal.
\<close>

theorem checkHealth_true_iff_200:
  "(fst (checkHealth P s) \<longleftrightarrow>
      (\<exists>key resp. issued s (snd (checkHealth P s)) = [NetCall 10 (healthRequest key)]
         \<and> client_Do P 10 (healthRequest key) = Inr resp \<and> StatusCode resp = 200))
   \<and> (\<forall>c \<in> set (issued s (snd (checkHealth P s))).
         \<exists>key. c = NetCall 10 (healthRequest key)
           \<and> key = os_Getenv (loadEnv P s) ''ELEVENLABS_API_KEY''
           \<and> Method (healthRequest key) = ''GET''
           \<and> URL (healthRequest key) = ''https://api.elevenlabs.io/v1/user''
           \<and> Header (healthRequest key) = [(''xi-api-key'', key)]
           \<and> (\<forall>e. client_Do P 10 (healthRequest key) = Inl e \<longrightarrow> \<not> fst (checkHealth P s))
           \<and> (\<forall>resp. client_Do P 10 (healthRequest key) = Inr resp \<and> StatusCode resp \<noteq> 200
                 \<longrightarrow> \<not> fst (checkHealth P s)))
   \<and> stderr (snd (checkHealth P s)) = stderr s
   \<and> stdout (snd (checkHealth P s)) = stdout s
   \<and> events (snd (checkHealth P s)) = events s"
  by (auto simp: checkHealth_def Let_def issued_def called_def healthRequest_def apiBaseURL_def
      split: option.splits sum.splits)

theorem checkHealth_true_iff_200_witness:
  "issued keyed_state (snd (checkHealth sample_platform keyed_state))
     = [NetCall 10 (healthRequest ''sk-1'')]
   \<and> client_Do sample_platform 10 (healthRequest ''sk-1'') = Inr sample_response
   \<and> StatusCode sample_response = 200
   \<and> fst (checkHealth sample_platform keyed_state)
   \<and> NetCall 10 (healthRequest ''sk-1'')
       \<in> set (issued keyed_state (snd (checkHealth refusing_platform keyed_state)))
   \<and> \<not> fst (checkHealth refusing_platform keyed_state)"
proof -
  have i1: "issued keyed_state (snd (checkHealth sample_platform keyed_state))
              = [NetCall 10 (healthRequest ''sk-1'')]"
    by (simp add: model_defs sample_defs sinks)
  have r1: "client_Do sample_platform 10 (healthRequest ''sk-1'') = Inr sample_response"
    by (simp add: sample_platform_def)
  have s1: "StatusCode sample_response = 200" by (simp add: sample_response_def)
  have i2: "NetCall 10 (healthRequest ''sk-1'')
              \<in> set (issued keyed_state (snd (checkHealth refusing_platform keyed_state)))"
    by (simp add: model_defs sample_defs sinks)
  have r2: "\<exists>resp. client_Do refusing_platform 10 (healthRequest ''sk-1'') = Inr resp
              \<and> StatusCode resp \<noteq> 200"
    by (simp add: sample_defs)
  have inj: "\<And>k. NetCall 10 (healthRequest ''sk-1'') = NetCall 10 (healthRequest k) \<Longrightarrow> k = ''sk-1''"
    by (simp add: healthRequest_def)
  have ex: "\<exists>key resp. issued keyed_state (snd (checkHealth sample_platform keyed_state))
                = [NetCall 10 (healthRequest key)]
         \<and> client_Do sample_platform 10 (healthRequest key) = Inr resp \<and> StatusCode resp = 200"
    using i1 r1 s1 by (intro exI conjI)
  have a: "fst (checkHealth sample_platform keyed_state)"
    using checkHealth_true_iff_200 [of sample_platform keyed_state, THEN conjunct1] ex
    by (rule iffD2)
  from checkHealth_true_iff_200 [of refusing_platform keyed_state, THEN conjunct2, THEN conjunct1,
      THEN bspec, OF i2]
  obtain key where k: "NetCall 10 (healthRequest ''sk-1'') = NetCall 10 (healthRequest key)"
    and no: "\<forall>resp. client_Do refusing_platform 10 (healthRequest key) = Inr resp
               \<and> StatusCode resp \<noteq> 200 \<longrightarrow> \<not> fst (checkHealth refusing_platform keyed_state)"
    by blast
  from inj [OF k] have "key = ''sk-1''" .
  with no r2 have b: "\<not> fst (checkHealth refusing_platform keyed_state)" by blast
  from i1 r1 s1 a i2 b show ?thesis by (intro conjI)
qed

subsection \<open>The order of the two required settings\<close>

text \<open>
  Claim C7, as stated, fails: with an empty environment, no environment files and no
  voice given on the command line, the synthesis command reports that
  ELEVENLABS_TTS_VOICE_ID was not found, and not the credential; the transformation
  command, given a source file that exists, reports ELEVENLABS_VOICE_CHANGE_ID.
\<close>

theorem credential_first_counterexample:
  "os_Getenv (loadEnv sample_platform empty_state) ''ELEVENLABS_API_KEY'' = []
   \<and> os_Getenv (loadEnv sample_platform empty_state) ''ELEVENLABS_TTS_VOICE_ID'' = []
   \<and> fl_voice novoice_tts_flags = []
   \<and> fst (cmdTTS sample_platform novoice_tts_flags empty_state) = Exit 1
   \<and> stderr (snd (cmdTTS sample_platform novoice_tts_flags empty_state))
       = [''ERROR: ELEVENLABS_TTS_VOICE_ID not found in environment'']
   \<and> stderr (snd (cmdTTS sample_platform novoice_tts_flags empty_state))
       \<noteq> [''ERROR: ELEVENLABS_API_KEY not found in environment'']
   \<and> os_Getenv (loadEnv sample_platform input_only_state) ''ELEVENLABS_API_KEY'' = []
   \<and> os_Getenv (loadEnv sample_platform input_only_state) ''ELEVENLABS_VOICE_CHANGE_ID'' = []
   \<and> fl_voice novoice_voice_flags = []
   \<and> fst (cmdVoice sample_platform novoice_voice_flags input_only_state) = Exit 1
   \<and> stderr (snd (cmdVoice sample_platform novoice_voice_flags input_only_state))
       = [''ERROR: ELEVENLABS_VOICE_CHANGE_ID not found in environment'']"
  by (simp add: model_defs sample_defs sinks novoice_tts_flags_def novoice_voice_flags_def
      input_only_state_def)

text \<open>
  Claim C7, amended. Each command resolves the voice identifier before the operation it
  runs resolves the credential. When no voice is given on the command line and the
  variable of the command (ELEVENLABS_TTS_VOICE_ID for synthesis, ELEVENLABS_VOICE_CHANGE_ID
  for transformation) is absent or empty, the command ends the process with status 1 and
  the one failure it reports names that variable, whether or not the credential is present,
  and so also when both are absent. For transformation this presupposes that the source
  file exists.
\<close>

theorem voice_id_resolved_first:
  "(fl_args fl \<noteq> [] \<and> fl_voice fl = []
      \<and> os_Getenv (loadEnv P s) ''ELEVENLABS_TTS_VOICE_ID'' = [] \<longrightarrow>
      fst (cmdTTS P fl s) = Exit 1
      \<and> stderr (snd (cmdTTS P fl s))
          = stderr s @ [''ERROR: ELEVENLABS_TTS_VOICE_ID not found in environment'']
      \<and> events (snd (cmdTTS P fl s))
          = events s @ [(ERROR, ''ELEVENLABS_TTS_VOICE_ID not found'', [])])
   \<and> (fl_args fv \<noteq> [] \<and> \<not> stat_IsNotExist s (fl_args fv ! 0) \<and> fl_voice fv = []
      \<and> os_Getenv (loadEnv P s) ''ELEVENLABS_VOICE_CHANGE_ID'' = [] \<longrightarrow>
      fst (cmdVoice P fv s) = Exit 1
      \<and> stderr (snd (cmdVoice P fv s))
          = stderr s @ [''ERROR: ELEVENLABS_VOICE_CHANGE_ID not found in environment'']
      \<and> events (snd (cmdVoice P fv s))
          = events s @ [(ERROR, ''ELEVENLABS_VOICE_CHANGE_ID not found'', [])])"
  by (auto simp: cmdTTS_def cmdVoice_def getTTSVoiceID_def getVoiceChangeID_def Let_def
      resolveRequired_missing sinks)

theorem voice_id_resolved_first_witness:
  "fl_args novoice_tts_flags \<noteq> [] \<and> fl_voice novoice_tts_flags = []
   \<and> os_Getenv (loadEnv sample_platform empty_state) ''ELEVENLABS_TTS_VOICE_ID'' = []
   \<and> os_Getenv (loadEnv sample_platform empty_state) ''ELEVENLABS_API_KEY'' = []
   \<and> fst (cmdTTS sample_platform novoice_tts_flags empty_state) = Exit 1
   \<and> stderr (snd (cmdTTS sample_platform novoice_tts_flags empty_state))
       = [''ERROR: ELEVENLABS_TTS_VOICE_ID not found in environment'']
   \<and> fl_args novoice_voice_flags \<noteq> []
   \<and> \<not> stat_IsNotExist input_only_state (fl_args novoice_voice_flags ! 0)
   \<and> fl_voice novoice_voice_flags = []
   \<and> os_Getenv (loadEnv sample_platform input_only_state) ''ELEVENLABS_VOICE_CHANGE_ID'' = []
   \<and> fst (cmdVoice sample_platform novoice_voice_flags input_only_state) = Exit 1
   \<and> stderr (snd (cmdVoice sample_platform novoice_voice_flags input_only_state))
       = [''ERROR: ELEVENLABS_VOICE_CHANGE_ID not found in environment'']"
proof -
  have h1: "fl_args novoice_tts_flags \<noteq> [] \<and> fl_voice novoice_tts_flags = []
     \<and> os_Getenv (loadEnv sample_platform empty_state) ''ELEVENLABS_TTS_VOICE_ID'' = []"
    by (simp add: model_defs sample_defs novoice_tts_flags_def novoice_voice_flags_def
        input_only_state_def)
  have h2: "fl_args novoice_voice_flags \<noteq> []
     \<and> \<not> stat_IsNotExist input_only_state (fl_args novoice_voice_flags ! 0)
     \<and> fl_voice novoice_voice_flags = []
     \<and> os_Getenv (loadEnv sample_platform input_only_state) ''ELEVENLABS_VOICE_CHANGE_ID'' = []"
    by (simp add: model_defs sample_defs novoice_tts_flags_def novoice_voice_flags_def
        input_only_state_def)
  have e: "stderr empty_state = []" "stderr input_only_state = []"
    by (simp_all add: sample_defs input_only_state_def)
  from voice_id_resolved_first [where P = sample_platform and s = empty_state
      and fl = novoice_tts_flags] h1 e
  have a: "fst (cmdTTS sample_platform novoice_tts_flags empty_state) = Exit 1
     \<and> stderr (snd (cmdTTS sample_platform novoice_tts_flags empty_state))
         = [''ERROR: ELEVENLABS_TTS_VOICE_ID not found in environment'']"
    by simp
  from voice_id_resolved_first [where P = sample_platform and s = input_only_state
      and fv = novoice_voice_flags] h2 e
  have b: "fst (cmdVoice sample_platform novoice_voice_flags input_only_state) = Exit 1
     \<and> stderr (snd (cmdVoice sample_platform novoice_voice_flags input_only_state))
         = [''ERROR: ELEVENLABS_VOICE_CHANGE_ID not found in environment'']"
    by simp
  from h1 h2 sample_no_key a b show ?thesis by blast
qed

subsection \<open>A voice given on the command line hides the configured default\<close>

text \<open>
  Claim C8. When a voice is given on the command line, the value of the default voice
  variable of the command has no influence on the run: two runs from process states that
  differ only in that variable (set to any value, or unset) have the same outcome, issue
  the same calls, leave the same files and directories, print the same lines and emit the
  same events, and their final environments agree on every other variable.
\<close>

theorem override_hides_default:
  assumes "fl_voice fl \<noteq> []" and "fl_voice fv \<noteq> []"
  shows "same_run ''ELEVENLABS_TTS_VOICE_ID''
           (cmdTTS P fl (with_env ''ELEVENLABS_TTS_VOICE_ID'' x s))
           (cmdTTS P fl (with_env ''ELEVENLABS_TTS_VOICE_ID'' y s))
    \<and> same_run ''ELEVENLABS_VOICE_CHANGE_ID''
           (cmdVoice P fv (with_env ''ELEVENLABS_VOICE_CHANGE_ID'' x s))
           (cmdVoice P fv (with_env ''ELEVENLABS_VOICE_CHANGE_ID'' y s))"
proof -
  obtain z1 z2 where
    t: "cmdTTS P fl (with_env ''ELEVENLABS_TTS_VOICE_ID'' x s)
          = apsnd (with_env ''ELEVENLABS_TTS_VOICE_ID'' z1) (cmdTTS P fl s)"
       "cmdTTS P fl (with_env ''ELEVENLABS_TTS_VOICE_ID'' y s)
          = apsnd (with_env ''ELEVENLABS_TTS_VOICE_ID'' z2) (cmdTTS P fl s)"
    using cmdTTS_with_env [OF assms(1)] by metis
  obtain z3 z4 where
    c: "cmdVoice P fv (with_env ''ELEVENLABS_VOICE_CHANGE_ID'' x s)
          = apsnd (with_env ''ELEVENLABS_VOICE_CHANGE_ID'' z3) (cmdVoice P fv s)"
       "cmdVoice P fv (with_env ''ELEVENLABS_VOICE_CHANGE_ID'' y s)
          = apsnd (with_env ''ELEVENLABS_VOICE_CHANGE_ID'' z4) (cmdVoice P fv s)"
    using cmdVoice_with_env [OF assms(2)] by metis
  show ?thesis by (simp add: same_run_def t c)
qed

theorem override_hides_default_witness:
  "fl_voice sample_tts_flags \<noteq> [] \<and> fl_voice sample_voice_flags \<noteq> []
   \<and> fst (cmdTTS sample_platform sample_tts_flags
            (with_env ''ELEVENLABS_TTS_VOICE_ID'' (Some ''other-voice'') keyed_state))
       = fst (cmdTTS sample_platform sample_tts_flags
            (with_env ''ELEVENLABS_TTS_VOICE_ID'' None keyed_state))
   \<and> trace (snd (cmdTTS sample_platform sample_tts_flags
            (with_env ''ELEVENLABS_TTS_VOICE_ID'' (Some ''other-voice'') keyed_state)))
       = trace (snd (cmdTTS sample_platform sample_tts_flags
            (with_env ''ELEVENLABS_TTS_VOICE_ID'' None keyed_state)))
   \<and> fst (cmdVoice sample_platform sample_voice_flags
            (with_env ''ELEVENLABS_VOICE_CHANGE_ID'' (Some ''other-voice'') input_state))
       = fst (cmdVoice sample_platform sample_voice_flags
            (with_env ''ELEVENLABS_VOICE_CHANGE_ID'' None input_state))
   \<and> trace (snd (cmdVoice sample_platform sample_voice_flags
            (with_env ''ELEVENLABS_VOICE_CHANGE_ID'' (Some ''other-voice'') input_state)))
       = trace (snd (cmdVoice sample_platform sample_voice_flags
            (with_env ''ELEVENLABS_VOICE_CHANGE_ID'' None input_state)))"
proof -
  have h1: "fl_voice sample_tts_flags \<noteq> []" by (simp add: sample_tts_flags_def)
  have h2: "fl_voice sample_voice_flags \<noteq> []" by (simp add: sample_voice_flags_def)
  from override_hides_default [OF h1 h2, where P = sample_platform and s = keyed_state
      and x = "Some ''other-voice''" and y = None]
  have a: "same_run ''ELEVENLABS_TTS_VOICE_ID''
      (cmdTTS sample_platform sample_tts_flags
         (with_env ''ELEVENLABS_TTS_VOICE_ID'' (Some ''other-voice'') keyed_state))
      (cmdTTS sample_platform sample_tts_flags
         (with_env ''ELEVENLABS_TTS_VOICE_ID'' None keyed_state))"
    by (rule conjunct1)
  from override_hides_default [OF h1 h2, where P = sample_platform and s = input_state
      and x = "Some ''other-voice''" and y = None]
  have b: "same_run ''ELEVENLABS_VOICE_CHANGE_ID''
      (cmdVoice sample_platform sample_voice_flags
         (with_env ''ELEVENLABS_VOICE_CHANGE_ID'' (Some ''other-voice'') input_state))
      (cmdVoice sample_platform sample_voice_flags
         (with_env ''ELEVENLABS_VOICE_CHANGE_ID'' None input_state))"
    by (rule conjunct2)
  from h1 h2 a b show ?thesis unfolding same_run_def by (intro conjI) blast+
qed

subsection \<open>What a successful command reports\<close>

text \<open>
  Claim C9, as stated, fails: after a successful synthesis the completion event
  \<^verbatim>\<open>tts_complete\<close> has the single attribute \<^verbatim>\<open>output\<close>; it carries neither the voice
  identifier nor the format nor a size.
\<close>

theorem completion_event_counterexample:
  "fst (cmdTTS sample_platform sample_tts_flags keyed_state) = Return ()
   \<and> last (events (snd (cmdTTS sample_platform sample_tts_flags keyed_state)))
       = (INFO, ''tts_complete'', [(''output'', AStr ''/tmp/out/speech.ogg'')])
   \<and> map_of [(''output'', AStr ''/tmp/out/speech.ogg'')] ''voice_id'' = None
   \<and> map_of [(''output'', AStr ''/tmp/out/speech.ogg'')] ''format'' = None
   \<and> map_of [(''output'', AStr ''/tmp/out/speech.ogg'')] ''text_len'' = None"
  by (simp add: model_defs sample_defs sinks)

text \<open>
  Claim C9, amended. A successful command emits exactly two events. The first, emitted
  before the request is sent, is the request event (\<^verbatim>\<open>tts_request\<close> or
  \<^verbatim>\<open>voice_change_request\<close>): it carries the voice identifier and the format, and for
  synthesis the length of the text, for transformation the path of the source. The
  second is the completion event (\<^verbatim>\<open>tts_complete\<close> or \<^verbatim>\<open>voice_change_complete\<close>): it
  carries the destination path only. The command then prints exactly the destination path.
\<close>

theorem events_of_success:
  "(cmdTTS P fl s = (Return u, s') \<longrightarrow>
      events s' = events s @
        [(INFO, ''tts_request'',
           [(''voice_id'',
               AStr (if fl_voice fl = [] then os_Getenv (loadEnv P s) ''ELEVENLABS_TTS_VOICE_ID''
                     else fl_voice fl)),
            (''format'', AStr (fl_format fl)),
            (''text_len'', AInt (int (length (fl_args fl ! 0))))]),
         (INFO, ''tts_complete'', [(''output'', AStr (fl_output fl))])]
      \<and> stdout s' = stdout s @ [fl_output fl])
   \<and> (cmdVoice P fv s = (Return u, s') \<longrightarrow>
      events s' = events s @
        [(INFO, ''voice_change_request'',
           [(''voice_id'',
               AStr (if fl_voice fv = [] then os_Getenv (loadEnv P s) ''ELEVENLABS_VOICE_CHANGE_ID''
                     else fl_voice fv)),
            (''format'', AStr (fl_format fv)),
            (''input'', AStr (fl_args fv ! 0))]),
         (INFO, ''voice_change_complete'', [(''output'', AStr (fl_output fv))])]
      \<and> stdout s' = stdout s @ [fl_output fv])"
proof -
  have 1: "cmdTTS P fl s = (Return u, s') \<longrightarrow>
      events s' = events s @
        [(INFO, ''tts_request'',
           [(''voice_id'',
               AStr (if fl_voice fl = [] then os_Getenv (loadEnv P s) ''ELEVENLABS_TTS_VOICE_ID''
                     else fl_voice fl)),
            (''format'', AStr (fl_format fl)),
            (''text_len'', AInt (int (length (fl_args fl ! 0))))]),
         (INFO, ''tts_complete'', [(''output'', AStr (fl_output fl))])]
      \<and> stdout s' = stdout s @ [fl_output fl]"
    by (auto simp: cmdTTS_def getTTSVoiceID_def Let_def sinks
        split: if_splits prod.splits outcome.splits option.splits
        dest!: resolveRequired_cases textToSpeech_ok)
  have 2: "cmdVoice P fv s = (Return u, s') \<longrightarrow>
      events s' = events s @
        [(INFO, ''voice_change_request'',
           [(''voice_id'',
               AStr (if fl_voice fv = [] then os_Getenv (loadEnv P s) ''ELEVENLABS_VOICE_CHANGE_ID''
                     else fl_voice fv)),
            (''format'', AStr (fl_format fv)),
            (''input'', AStr (fl_args fv ! 0))]),
         (INFO, ''voice_change_complete'', [(''output'', AStr (fl_output fv))])]
      \<and> stdout s' = stdout s @ [fl_output fv]"
    by (auto simp: cmdVoice_def getVoiceChangeID_def Let_def sinks
        split: if_splits prod.splits outcome.splits option.splits
        dest!: resolveRequired_cases voiceChange_ok)
  from 1 2 show ?thesis by (rule conjI)
qed

theorem events_of_success_witness:
  "fst (cmdTTS sample_platform sample_tts_flags keyed_state) = Return ()
   \<and> events (snd (cmdTTS sample_platform sample_tts_flags keyed_state))
       = [(INFO, ''tts_request'',
            [(''voice_id'', AStr ''v1''), (''format'', AStr ''opus''), (''text_len'', AInt 5)]),
          (INFO, ''tts_complete'', [(''output'', AStr ''/tmp/out/speech.ogg'')])]
   \<and> stdout (snd (cmdTTS sample_platform sample_tts_flags keyed_state)) = [''/tmp/out/speech.ogg'']
   \<and> fst (cmdVoice sample_platform sample_voice_flags input_state) = Return ()
   \<and> events (snd (cmdVoice sample_platform sample_voice_flags input_state))
       = [(INFO, ''voice_change_request'',
            [(''voice_id'', AStr ''v2''), (''format'', AStr ''opus''),
             (''input'', AStr ''/tmp/in.ogg'')]),
          (INFO, ''voice_change_complete'', [(''output'', AStr ''/tmp/out/voice.ogg'')])]
   \<and> stdout (snd (cmdVoice sample_platform sample_voice_flags input_state))
       = [''/tmp/out/voice.ogg'']"
proof -
  let ?t = "cmdTTS sample_platform sample_tts_flags keyed_state"
  let ?c = "cmdVoice sample_platform sample_voice_flags input_state"
  have t: "fst ?t = Return ()" by (simp add: model_defs sample_defs sinks)
  have c: "fst ?c = Return ()" by (simp add: model_defs sample_defs sinks)
  have ht: "?t = (Return (), snd ?t)" using t by (simp add: prod_eq_iff)
  have hc: "?c = (Return (), snd ?c)" using c by (simp add: prod_eq_iff)
  have e: "events keyed_state = []" "stdout keyed_state = []"
    "events input_state = []" "stdout input_state = []"
    by (simp_all add: sample_defs)
  have fl: "fl_voice sample_tts_flags = ''v1''" "fl_format sample_tts_flags = ''opus''"
    "fl_args sample_tts_flags = [''hello'']" "fl_output sample_tts_flags = ''/tmp/out/speech.ogg''"
    "fl_voice sample_voice_flags = ''v2''" "fl_format sample_voice_flags = ''opus''"
    "fl_args sample_voice_flags = [''/tmp/in.ogg'']"
    "fl_output sample_voice_flags = ''/tmp/out/voice.ogg''"
    by (simp_all add: sample_defs)
  from events_of_success [where P = sample_platform and s = keyed_state
      and fl = sample_tts_flags and u = "()" and s' = "snd ?t", THEN conjunct1] ht
  have a: "events (snd ?t)
       = [(INFO, ''tts_request'',
            [(''voice_id'', AStr ''v1''), (''format'', AStr ''opus''), (''text_len'', AInt 5)]),
          (INFO, ''tts_complete'', [(''output'', AStr ''/tmp/out/speech.ogg'')])]
     \<and> stdout (snd ?t) = [''/tmp/out/speech.ogg'']"
    by (simp add: e fl)
  from events_of_success [where P = sample_platform and s = input_state
      and fv = sample_voice_flags and u = "()" and s' = "snd ?c", THEN conjunct2] hc
  have b: "events (snd ?c)
       = [(INFO, ''voice_change_request'',
            [(''voice_id'', AStr ''v2''), (''format'', AStr ''opus''),
             (''input'', AStr ''/tmp/in.ogg'')]),
          (INFO, ''voice_change_complete'', [(''output'', AStr ''/tmp/out/voice.ogg'')])]
     \<and> stdout (snd ?c) = [''/tmp/out/voice.ogg'']"
    by (simp add: e fl)
  from t c a b show ?thesis by blast
qed

subsection \<open>The probe without a credential\<close>

text \<open>
  Claim C10. When ELEVENLABS_API_KEY is absent or empty in the environment, the probe
  returns false and the list of calls is what it was before: no request is sent.
\<close>

theorem checkHealth_without_key:
  assumes "os_Getenv (loadEnv P s) ''ELEVENLABS_API_KEY'' = []"
  shows "fst (checkHealth P s) = False \<and> trace (snd (checkHealth P s)) = trace s
    \<and> issued s (snd (checkHealth P s)) = []"
  using assms by (simp add: checkHealth_def Let_def issued_def)

theorem checkHealth_without_key_witness:
  "os_Getenv (loadEnv sample_platform empty_state) ''ELEVENLABS_API_KEY'' = []
   \<and> fst (checkHealth sample_platform empty_state) = False
   \<and> trace (snd (checkHealth sample_platform empty_state)) = []"
proof -
  have t: "trace empty_state = []" by (simp add: empty_state_def)
  show ?thesis
    using sample_no_key checkHealth_without_key [OF sample_no_key] t by simp
qed

end
